theory Spec2Isabelle
  imports
    Main
    "HOL-Library.Word"
    "HOL-Library.Multiset"
    "HOL-Library.Char_ord"
    "HOL-Library.List_Lexorder"
begin

section \<open>kube-pulse: the dashboard's state machine\<close>

text \<open>
  The program is a terminal dashboard for a Kubernetes cluster, written in Go on the
  bubbletea framework: a single \<open>model\<close> struct, an \<open>Update\<close> function that consumes one
  message at a time, and commands (closures run by the framework) whose results come back
  as messages. The definitions below follow the later of the two revisions in the
  repository (the one with search, sorting, restart, cleanse and the container picker);
  the earlier revision, \<open>main.go\<close>, has the same \<open>calculatePagination\<close> and a \<open>filterPods\<close>
  without the search filter and without the sort.

  Go's \<open>int\<close> is modelled as \<open>int\<close>, with the 64-bit wrap-around written out where a
  field of the model is added to or subtracted from (\<open>len(xs) - 1\<close> and counts bounded by a
  length cannot wrap and are left plain); \<open>int32\<close> and \<open>int64\<close> fields are words, read
  with \<open>sint\<close>; Go strings are byte lists, compared bytewise (lexicographic order on
  \<open>char list\<close>).
\<close>

subsection \<open>Go primitives\<close>

definition int64_wrap :: "int \<Rightarrow> int" where
  "int64_wrap x = (x + 2 ^ 63) mod 2 ^ 64 - 2 ^ 63"

definition in_int64 :: "int \<Rightarrow> bool" where
  "in_int64 x \<longleftrightarrow> - (2 ^ 63) \<le> x \<and> x < 2 ^ 63"

text \<open>Run-time panics that the code can raise: a slice index out of range, a nil pointer.\<close>

datatype panic = IndexOutOfRange | NilDereference

definition index :: "'a list \<Rightarrow> int \<Rightarrow> panic + 'a" where
  "index xs i =
     (if 0 \<le> i \<and> i < int (length xs) then Inr (xs ! nat i) else Inl IndexOutOfRange)"

definition deref :: "'a option \<Rightarrow> panic + 'a" where
  "deref p = (case p of None \<Rightarrow> Inl NilDereference | Some x \<Rightarrow> Inr x)"

text \<open>\<open>strings.Contains(s, substr)\<close>: \<open>substr\<close> occurs in \<open>s\<close> as a contiguous run of bytes.\<close>

fun strings_Contains :: "string \<Rightarrow> string \<Rightarrow> bool" where
  "strings_Contains [] substr = (substr = [])"
| "strings_Contains (c # s) substr =
     (take (length substr) (c # s) = substr \<or> strings_Contains s substr)"

subsection \<open>Data\<close>

record PodInfo =
  Namespace :: string
  Name :: string
  Ready :: string
  Status :: string
  Restarts :: "32 word"
  CpuUsage :: string
  MemUsage :: string
  RawCpu :: "64 word"
  RawMem :: "64 word"
  NodeName :: string
  PodIP :: string
  IsReady :: bool
  Message :: string
  Port :: "32 word"
  Age :: string
  Containers :: "string list"

record ClusterStats =
  TotalCpuUsage :: "64 word"
  TotalMemUsage :: "64 word"
  TotalCpuCap :: "64 word"
  TotalMemCap :: "64 word"
  NodeCount :: int

datatype sessionState =
  viewList | viewLogs | viewDiagnosis | viewYaml | viewDeleteConfirm
  | viewRestartConfirm | viewCleanseConfirm | viewContainerSelect

datatype sortMode = sortDefault | sortCPU | sortMem

text \<open>
  The two widgets of the bubbles library that the model embeds. Only what the program
  reads or sets is kept: the text input's value and focus, the viewport's size and content.
\<close>

record textinput_Model =
  ti_Value :: string
  ti_focus :: bool

record viewport_Model =
  vp_Width :: int
  vp_Height :: int
  vp_content :: string

record model =
  kubeconfig :: string
  pods :: "PodInfo list"
  filteredPods :: "PodInfo list"
  clusterStats :: ClusterStats
  namespaces :: "string list"
  currentNsIdx :: int
  state :: sessionState
  sort_mode :: sortMode
  cursor :: int
  showIssues :: bool
  loading :: bool
  msg :: string
  textInput :: textinput_Model
  searchActive :: bool
  podToDelete :: "PodInfo option"
  viewport :: viewport_Model
  logContent :: string
  diagContent :: string
  yamlContent :: string
  selectedPod :: "PodInfo option"
  containerList :: "string list"
  containerCursor :: int
  targetAction :: string
  width :: int
  height :: int
  activeForwards :: "string \<rightharpoonup> string list"

text \<open>
  What the program calls but does not define: library functions of Go and of the widget
  library, and the operating system starting a process. They are parameters of the model.
  \<open>sort_Slice less xs\<close> is \<open>sort.Slice(xs, less)\<close>, with the comparison given on elements
  instead of on indices; \<open>exec_Start args\<close> is the error of \<open>exec.Command(args).Start()\<close>,
  \<open>None\<close> when the process started.
\<close>

record env =
  sort_Slice :: "(PodInfo \<Rightarrow> PodInfo \<Rightarrow> bool) \<Rightarrow> PodInfo list \<Rightarrow> PodInfo list"
  strings_ToLower :: "string \<Rightarrow> string"
  textinput_Update :: "textinput_Model \<Rightarrow> string \<Rightarrow> textinput_Model"
  viewport_Update :: "viewport_Model \<Rightarrow> string \<Rightarrow> viewport_Model"
  exec_Start :: "string list \<Rightarrow> string option"

text \<open>
  The documented contract of \<open>sort.Slice\<close>: the slice is rearranged (elements are only
  swapped) into an order in which no element is followed by one that is less than it,
  provided \<open>less\<close> is a strict weak ordering. "The sort is not guaranteed to be stable:
  equal elements may be reversed from their original order."
\<close>

definition strict_weak_order :: "('a \<Rightarrow> 'a \<Rightarrow> bool) \<Rightarrow> bool" where
  "strict_weak_order lt \<longleftrightarrow>
     (\<forall>a. \<not> lt a a) \<and>
     (\<forall>a b c. lt a b \<and> lt b c \<longrightarrow> lt a c) \<and>
     (\<forall>a b c. \<not> lt a b \<and> \<not> lt b a \<and> \<not> lt b c \<and> \<not> lt c b
        \<longrightarrow> \<not> lt a c \<and> \<not> lt c a)"

definition sort_Slice_contract ::
  "(('a \<Rightarrow> 'a \<Rightarrow> bool) \<Rightarrow> 'a list \<Rightarrow> 'a list) \<Rightarrow> bool" where
  "sort_Slice_contract srt \<longleftrightarrow>
     (\<forall>lt xs. mset (srt lt xs) = mset xs) \<and>
     (\<forall>lt xs. strict_weak_order lt \<longrightarrow> sorted_wrt (\<lambda>a b. \<not> lt b a) (srt lt xs))"

subsection \<open>Filter and sort\<close>

text \<open>The comparison closure handed to \<open>sort.Slice\<close> in \<open>filterPods\<close>, by sort mode.\<close>

definition podLess :: "sortMode \<Rightarrow> PodInfo \<Rightarrow> PodInfo \<Rightarrow> bool" where
  "podLess s a b =
     (case s of
        sortCPU \<Rightarrow> sint (RawCpu b) < sint (RawCpu a)
      | sortMem \<Rightarrow> sint (RawMem b) < sint (RawMem a)
      | sortDefault \<Rightarrow>
          (if Status a \<noteq> ''Running'' \<and> Status b = ''Running'' then True
           else if Status a = ''Running'' \<and> Status b \<noteq> ''Running'' then False
           else Name a < Name b))"

text \<open>
  The loop of \<open>filterPods\<close> over \<open>m.pods\<close>: three \<open>continue\<close> guards (namespace, issues
  only, search text), then \<open>append\<close>.
\<close>

primrec filterLoop ::
  "env \<Rightarrow> string \<Rightarrow> bool \<Rightarrow> string \<Rightarrow> PodInfo list \<Rightarrow> PodInfo list \<Rightarrow> PodInfo list" where
  "filterLoop E selectedNs issues searchTerm [] target = target"
| "filterLoop E selectedNs issues searchTerm (p # ps) target =
     (if selectedNs \<noteq> ''ALL'' \<and> Namespace p \<noteq> selectedNs
        then filterLoop E selectedNs issues searchTerm ps target
      else if issues \<and> (Status p = ''Running'' \<or> Status p = ''Succeeded'')
                \<and> Restarts p = 0 \<and> IsReady p
        then filterLoop E selectedNs issues searchTerm ps target
      else if searchTerm \<noteq> ''''
                \<and> \<not> strings_Contains (strings_ToLower E (Name p)) searchTerm
        then filterLoop E selectedNs issues searchTerm ps target
      else filterLoop E selectedNs issues searchTerm ps (target @ [p]))"

definition filterPods :: "env \<Rightarrow> model \<Rightarrow> panic + model" where
  "filterPods E m =
     (case index (namespaces m) (currentNsIdx m) of
        Inl e \<Rightarrow> Inl e
      | Inr selectedNs \<Rightarrow>
          let searchTerm = strings_ToLower E (ti_Value (textInput m));
              target = filterLoop E selectedNs (showIssues m) searchTerm (pods m) []
          in Inr (m\<lparr>filteredPods := sort_Slice E (podLess (sort_mode m)) target\<rparr>))"

text \<open>The three predicates of the loop, named for the statements about it.\<close>

definition nsMatch :: "string \<Rightarrow> PodInfo \<Rightarrow> bool" where
  "nsMatch selectedNs p \<longleftrightarrow> selectedNs = ''ALL'' \<or> Namespace p = selectedNs"

definition searchMatch :: "env \<Rightarrow> string \<Rightarrow> PodInfo \<Rightarrow> bool" where
  "searchMatch E searchTerm p \<longleftrightarrow>
     searchTerm = '''' \<or> strings_Contains (strings_ToLower E (Name p)) searchTerm"

definition noIssue :: "PodInfo \<Rightarrow> bool" where
  "noIssue p \<longleftrightarrow>
     (Status p = ''Running'' \<or> Status p = ''Succeeded'') \<and> Restarts p = 0 \<and> IsReady p"

text \<open>
  \<open>filterPods\<close> of the earlier revision (\<open>main.go\<close>): the namespace and issues-only
  guards only, and no sort.
\<close>

primrec main_filterLoop :: "string \<Rightarrow> bool \<Rightarrow> PodInfo list \<Rightarrow> PodInfo list \<Rightarrow> PodInfo list" where
  "main_filterLoop selectedNs issues [] target = target"
| "main_filterLoop selectedNs issues (p # ps) target =
     (if selectedNs \<noteq> ''ALL'' \<and> Namespace p \<noteq> selectedNs
        then main_filterLoop selectedNs issues ps target
      else if issues \<and> (Status p = ''Running'' \<or> Status p = ''Succeeded'')
                \<and> Restarts p = 0 \<and> IsReady p
        then main_filterLoop selectedNs issues ps target
      else main_filterLoop selectedNs issues ps (target @ [p]))"

definition main_filterPods :: "model \<Rightarrow> panic + model" where
  "main_filterPods m =
     (case index (namespaces m) (currentNsIdx m) of
        Inl e \<Rightarrow> Inl e
      | Inr selectedNs \<Rightarrow>
          Inr (m\<lparr>filteredPods := main_filterLoop selectedNs (showIssues m) (pods m) []\<rparr>))"

subsection \<open>Pagination\<close>

text \<open>The local \<open>perPage\<close> of \<open>calculatePagination\<close>: the viewport capacity.\<close>

definition perPage :: "model \<Rightarrow> int" where
  "perPage m = (let pp = int64_wrap (height m - 12) in if pp \<le> 0 then 5 else pp)"

definition calculatePagination :: "model \<Rightarrow> int \<times> int" where
  "calculatePagination m =
     (let pp = perPage m; n = int (length (filteredPods m))
      in if n > pp
         then (if cursor m < pp then (0, pp)
               else (int64_wrap (int64_wrap (cursor m - pp) + 1), int64_wrap (cursor m + 1)))
         else (0, n))"

subsection \<open>Messages and commands\<close>

text \<open>
  \<open>nilMsg\<close> is the nil message: what a fetch command returns when the cluster call
  failed. \<open>Update\<close> has no case for it.
\<close>

datatype Msg =
  WindowSizeMsg int int
  | KeyMsg string
  | tickMsg
  | podsMsg "PodInfo list"
  | statsMsg ClusterStats
  | nsMsg "string list"
  | logsMsg string
  | diagMsg string
  | yamlMsg string
  | deleteMsg string
  | nilMsg

text \<open>
  A command is a closure that the framework runs off the event loop. Each constructor is
  the value that the Go function of the same name returns; \<open>widgetCmd\<close> stands for the
  command a widget's own \<open>Update\<close> hands back.
\<close>

datatype Cmd =
  nilCmd
  | tea_Quit
  | tea_Batch "Cmd list"
  | textinput_Blink
  | widgetCmd
  | tick
  | fetchPods
  | fetchClusterStats
  | fetchNamespaces
  | fetchLogs PodInfo string
  | fetchYaml string string
  | diagnosePod PodInfo
  | deletePod PodInfo
  | cleanseNamespace string
  | openShell string string string string

definition initialModel :: "string \<Rightarrow> textinput_Model \<Rightarrow> model" where
  "initialModel k ti =
     \<lparr>kubeconfig = k, pods = [], filteredPods = [],
      clusterStats = \<lparr>TotalCpuUsage = 0, TotalMemUsage = 0, TotalCpuCap = 0,
                      TotalMemCap = 0, NodeCount = 0\<rparr>,
      namespaces = [''ALL''], currentNsIdx = 0, state = viewList, sort_mode = sortDefault,
      cursor = 0, showIssues = False, loading = True, msg = '''', textInput = ti,
      searchActive = False, podToDelete = None,
      viewport = \<lparr>vp_Width = 0, vp_Height = 0, vp_content = ''''\<rparr>,
      logContent = '''', diagContent = '''', yamlContent = '''', selectedPod = None,
      containerList = [], containerCursor = 0, targetAction = '''', width = 0, height = 0,
      activeForwards = Map.empty\<rparr>"

definition Init :: "model \<Rightarrow> Cmd" where
  "Init m = tea_Batch [fetchPods, fetchClusterStats, fetchNamespaces, tick]"

subsection \<open>Formatting\<close>

text \<open>\<open>%d\<close> of \<open>fmt.Sprintf\<close>: a signed decimal numeral.\<close>

function digits :: "nat \<Rightarrow> string" where
  "digits n =
     (if n < 10 then [''0123456789'' ! n]
      else digits (n div 10) @ [''0123456789'' ! (n mod 10)])"
  by pat_completeness auto
termination
  by (relation "measure id") auto

declare digits.simps [simp del]

definition Sprintf_d :: "int \<Rightarrow> string" where
  "Sprintf_d i = (if i < 0 then CHR ''-'' # digits (nat (- i)) else digits (nat i))"

subsection \<open>The container picker\<close>

definition initiateAction :: "model \<Rightarrow> PodInfo \<Rightarrow> string \<Rightarrow> model \<times> Cmd" where
  "initiateAction m pod action =
     (if length (Containers pod) > 1
      then (m\<lparr>selectedPod := Some pod, containerList := Containers pod,
               targetAction := action, state := viewContainerSelect,
               containerCursor := 0\<rparr>, nilCmd)
      else
        let container = (if length (Containers pod) > 0 then Containers pod ! 0 else '''')
        in if action = ''logs''
           then (m\<lparr>selectedPod := Some pod, state := viewLogs,
                    msg := ''Logs: '' @ Name pod\<rparr>, fetchLogs pod container)
           else (m, openShell (Namespace pod) (Name pod) container (kubeconfig m)))"

subsection \<open>Update\<close>

text \<open>
  \<open>Update\<close> is one function in the source; it is split here along its outer \<open>switch\<close>:
  the search bar, then one definition per session state, then the other messages. A result
  \<open>Inl\<close> is a panic of the Go run time; \<open>Inr (m', c)\<close> is the returned model and command.
  Killing a port-forward process (on \<open>q\<close>, and on \<open>f\<close> for a pod that is being forwarded)
  acts on the operating system only and returns nothing that the program reads; it leaves
  no trace in the model beyond the entry removed from \<open>activeForwards\<close>. The scroll
  position of the viewport is not kept.
\<close>

definition Update_search :: "env \<Rightarrow> model \<Rightarrow> string \<Rightarrow> panic + model \<times> Cmd" where
  "Update_search E m k =
     (if k = ''enter'' \<or> k = ''esc''
      then Inr (m\<lparr>searchActive := False, textInput := (textInput m)\<lparr>ti_focus := False\<rparr>\<rparr>,
                nilCmd)
      else (case filterPods E (m\<lparr>textInput := textinput_Update E (textInput m) k\<rparr>) of
              Inl e \<Rightarrow> Inl e
            | Inr m' \<Rightarrow> Inr (m', widgetCmd)))"

text \<open>The \<open>f\<close> key: toggle the port-forward of the pod under the cursor.\<close>

definition startForward :: "env \<Rightarrow> model \<Rightarrow> PodInfo \<Rightarrow> string \<Rightarrow> model" where
  "startForward E m selected key =
     (let targetPort = (if Port selected = 0 then 80 else Port selected);
          c = [''kubectl'', ''port-forward'', ''-n'', Namespace selected, Name selected,
               ''8080:'' @ Sprintf_d (sint targetPort)]
      in case exec_Start E c of
           None \<Rightarrow>
             m\<lparr>activeForwards := (activeForwards m)(key \<mapsto> c),
               msg := ''Forwarding '' @ Name selected @ '' -> :8080''\<rparr>
         | Some err \<Rightarrow> m\<lparr>msg := ''Forward fail: '' @ err\<rparr>)"

definition toggleForward :: "env \<Rightarrow> model \<Rightarrow> PodInfo \<Rightarrow> model" where
  "toggleForward E m selected =
     (let key = Namespace selected @ ''/'' @ Name selected
      in case activeForwards m key of
           Some c \<Rightarrow>
             m\<lparr>activeForwards := (activeForwards m)(key := None),
               msg := ''Stopped forwarding '' @ Name selected\<rparr>
         | None \<Rightarrow> startForward E m selected key)"

definition Update_viewList :: "env \<Rightarrow> model \<Rightarrow> string \<Rightarrow> panic + model \<times> Cmd" where
  "Update_viewList E m k =
     (if k = ''q'' \<or> k = ''ctrl+c'' then Inr (m, tea_Quit)
      else if k = ''up'' \<or> k = ''k'' then
        Inr (if cursor m > 0 then m\<lparr>cursor := int64_wrap (cursor m - 1)\<rparr> else m, nilCmd)
      else if k = ''down'' \<or> k = ''j'' then
        Inr (if cursor m < int (length (filteredPods m)) - 1
             then m\<lparr>cursor := int64_wrap (cursor m + 1)\<rparr> else m, nilCmd)
      else if k = ''/'' then
        Inr (m\<lparr>searchActive := True, textInput := (textInput m)\<lparr>ti_focus := True\<rparr>\<rparr>,
             textinput_Blink)
      else if k = ''c'' then
        (case filterPods E (m\<lparr>sort_mode := sortCPU\<rparr>) of
           Inl e \<Rightarrow> Inl e
         | Inr m' \<Rightarrow> Inr (m'\<lparr>msg := ''Sort: CPU Usage''\<rparr>, nilCmd))
      else if k = ''m'' then
        (case filterPods E (m\<lparr>sort_mode := sortMem\<rparr>) of
           Inl e \<Rightarrow> Inl e
         | Inr m' \<Rightarrow> Inr (m'\<lparr>msg := ''Sort: Memory Usage''\<rparr>, nilCmd))
      else if k = ''n'' then
        (if length (namespaces m) > 1 then
           let i = int64_wrap (currentNsIdx m + 1);
               i' = (if i \<ge> int (length (namespaces m)) then 0 else i)
           in (case filterPods E (m\<lparr>currentNsIdx := i', cursor := 0, sort_mode := sortDefault\<rparr>) of
                 Inl e \<Rightarrow> Inl e
               | Inr m' \<Rightarrow> Inr (m', nilCmd))
         else Inr (m, nilCmd))
      else if k = ''tab'' then
        (case filterPods E (m\<lparr>showIssues := \<not> showIssues m, cursor := 0\<rparr>) of
           Inl e \<Rightarrow> Inl e
         | Inr m' \<Rightarrow>
             Inr (m'\<lparr>msg := (if showIssues m' then ''Filter: Issues Only''
                               else ''Filter: Showing All'')\<rparr>, nilCmd))
      else if k = ''enter'' then
        (if length (filteredPods m) > 0 then
           (case index (filteredPods m) (cursor m) of
              Inl e \<Rightarrow> Inl e
            | Inr pod \<Rightarrow> Inr (initiateAction m pod ''logs''))
         else Inr (m, nilCmd))
      else if k = ''s'' then
        (if length (filteredPods m) > 0 then
           (case index (filteredPods m) (cursor m) of
              Inl e \<Rightarrow> Inl e
            | Inr pod \<Rightarrow> Inr (initiateAction m pod ''shell''))
         else Inr (m, nilCmd))
      else if k = ''?'' then
        (if length (filteredPods m) > 0 then
           (case index (filteredPods m) (cursor m) of
              Inl e \<Rightarrow> Inl e
            | Inr selected \<Rightarrow>
                Inr (m\<lparr>selectedPod := Some selected, state := viewDiagnosis,
                        msg := ''Diagnosing '' @ Name selected @ ''...''\<rparr>,
                     diagnosePod selected))
         else Inr (m, nilCmd))
      else if k = ''y'' then
        (if length (filteredPods m) > 0 then
           (case index (filteredPods m) (cursor m) of
              Inl e \<Rightarrow> Inl e
            | Inr selected \<Rightarrow>
                Inr (m\<lparr>selectedPod := Some selected, state := viewYaml,
                        msg := ''Fetching YAML...''\<rparr>,
                     fetchYaml (Namespace selected) (Name selected)))
         else Inr (m, nilCmd))
      else if k = ''r'' then
        (if length (filteredPods m) > 0 then
           (case index (filteredPods m) (cursor m) of
              Inl e \<Rightarrow> Inl e
            | Inr selected \<Rightarrow>
                Inr (m\<lparr>podToDelete := Some selected, state := viewRestartConfirm\<rparr>, nilCmd))
         else Inr (m, nilCmd))
      else if k = ''d'' then
        (if length (filteredPods m) > 0 then
           (case index (filteredPods m) (cursor m) of
              Inl e \<Rightarrow> Inl e
            | Inr selected \<Rightarrow>
                Inr (m\<lparr>podToDelete := Some selected, state := viewDeleteConfirm\<rparr>, nilCmd))
         else Inr (m, nilCmd))
      else if k = ''C'' then
        (case index (namespaces m) (currentNsIdx m) of
           Inl e \<Rightarrow> Inl e
         | Inr currentNs \<Rightarrow>
             if currentNs = ''ALL''
             then Inr (m\<lparr>msg := map char_of [226, 154, 160, 239, 184, 143 :: nat]
                               @ '' Cannot Cleanse 'ALL'. Select a namespace.''\<rparr>, nilCmd)
             else Inr (m\<lparr>state := viewCleanseConfirm\<rparr>, nilCmd))
      else if k = ''f'' then
        (if length (filteredPods m) > 0 then
           (case index (filteredPods m) (cursor m) of
              Inl e \<Rightarrow> Inl e
            | Inr selected \<Rightarrow> Inr (toggleForward E m selected, nilCmd))
         else Inr (m, nilCmd))
      else Inr (m, nilCmd))"

definition Update_viewContainerSelect :: "model \<Rightarrow> string \<Rightarrow> panic + model \<times> Cmd" where
  "Update_viewContainerSelect m k =
     (if k = ''esc'' \<or> k = ''q'' then Inr (m\<lparr>state := viewList, msg := ''Cancelled''\<rparr>, nilCmd)
      else if k = ''up'' \<or> k = ''k'' then
        Inr (if containerCursor m > 0
             then m\<lparr>containerCursor := int64_wrap (containerCursor m - 1)\<rparr> else m, nilCmd)
      else if k = ''down'' \<or> k = ''j'' then
        Inr (if containerCursor m < int (length (containerList m)) - 1
             then m\<lparr>containerCursor := int64_wrap (containerCursor m + 1)\<rparr> else m, nilCmd)
      else if k = ''enter'' then
        (case index (containerList m) (containerCursor m) of
           Inl e \<Rightarrow> Inl e
         | Inr container \<Rightarrow>
             if targetAction m = ''logs'' then
               (case deref (selectedPod m) of
                  Inl e \<Rightarrow> Inl e
                | Inr pod \<Rightarrow> Inr (m\<lparr>state := viewLogs\<rparr>, fetchLogs pod container))
             else if targetAction m = ''shell'' then
               (case deref (selectedPod m) of
                  Inl e \<Rightarrow> Inl e
                | Inr pod \<Rightarrow>
                    Inr (m\<lparr>state := viewList\<rparr>,
                         openShell (Namespace pod) (Name pod) container (kubeconfig m)))
             else Inr (m\<lparr>state := viewList\<rparr>, nilCmd))
      else Inr (m, nilCmd))"

definition Update_viewCleanseConfirm :: "model \<Rightarrow> string \<Rightarrow> panic + model \<times> Cmd" where
  "Update_viewCleanseConfirm m k =
     (if k = ''y'' \<or> k = ''Y'' then
        (case index (namespaces m) (currentNsIdx m) of
           Inl e \<Rightarrow> Inl e
         | Inr ns \<Rightarrow> Inr (m\<lparr>state := viewList\<rparr>, cleanseNamespace ns))
      else if k = ''n'' \<or> k = ''N'' \<or> k = ''esc'' \<or> k = ''q'' then
        Inr (m\<lparr>state := viewList, msg := ''Cleanse cancelled.''\<rparr>, nilCmd)
      else Inr (m, nilCmd))"

definition Update_viewRestartConfirm :: "model \<Rightarrow> string \<Rightarrow> panic + model \<times> Cmd" where
  "Update_viewRestartConfirm m k =
     (if k = ''y'' \<or> k = ''Y'' then
        (case deref (podToDelete m) of
           Inl e \<Rightarrow> Inl e
         | Inr pod \<Rightarrow>
             Inr (m\<lparr>msg := ''Restarting '' @ Name pod @ ''...'', podToDelete := None,
                     state := viewList\<rparr>, deletePod pod))
      else if k = ''n'' \<or> k = ''N'' \<or> k = ''esc'' \<or> k = ''q'' then
        Inr (m\<lparr>podToDelete := None, state := viewList, msg := ''Restart cancelled.''\<rparr>, nilCmd)
      else Inr (m, nilCmd))"

definition Update_viewDeleteConfirm :: "model \<Rightarrow> string \<Rightarrow> panic + model \<times> Cmd" where
  "Update_viewDeleteConfirm m k =
     (if k = ''y'' \<or> k = ''Y'' then
        (case deref (podToDelete m) of
           Inl e \<Rightarrow> Inl e
         | Inr pod \<Rightarrow>
             Inr (m\<lparr>msg := ''Deleting '' @ Name pod @ ''...'', podToDelete := None,
                     state := viewList\<rparr>, deletePod pod))
      else if k = ''n'' \<or> k = ''N'' \<or> k = ''esc'' \<or> k = ''q'' then
        Inr (m\<lparr>podToDelete := None, state := viewList, msg := ''Delete cancelled.''\<rparr>, nilCmd)
      else Inr (m, nilCmd))"

definition Update_viewContent :: "env \<Rightarrow> model \<Rightarrow> string \<Rightarrow> panic + model \<times> Cmd" where
  "Update_viewContent E m k =
     (if k = ''esc'' \<or> k = ''q'' then Inr (m\<lparr>state := viewList, msg := ''Dashboard''\<rparr>, nilCmd)
      else Inr (m\<lparr>viewport := viewport_Update E (viewport m) k\<rparr>, widgetCmd))"

definition Update_key :: "env \<Rightarrow> model \<Rightarrow> string \<Rightarrow> panic + model \<times> Cmd" where
  "Update_key E m k =
     (if searchActive m then Update_search E m k
      else case state m of
             viewList \<Rightarrow> Update_viewList E m k
           | viewContainerSelect \<Rightarrow> Update_viewContainerSelect m k
           | viewCleanseConfirm \<Rightarrow> Update_viewCleanseConfirm m k
           | viewRestartConfirm \<Rightarrow> Update_viewRestartConfirm m k
           | viewDeleteConfirm \<Rightarrow> Update_viewDeleteConfirm m k
           | viewLogs \<Rightarrow> Update_viewContent E m k
           | viewDiagnosis \<Rightarrow> Update_viewContent E m k
           | viewYaml \<Rightarrow> Update_viewContent E m k)"

text \<open>The \<open>podsMsg\<close> case: new snapshot, filter again, pull the cursor back.\<close>

definition Update_podsMsg :: "env \<Rightarrow> model \<Rightarrow> PodInfo list \<Rightarrow> panic + model \<times> Cmd" where
  "Update_podsMsg E m ps =
     (case filterPods E (m\<lparr>pods := ps, loading := False\<rparr>) of
        Inl e \<Rightarrow> Inl e
      | Inr m' \<Rightarrow>
          Inr (if cursor m' \<ge> int (length (filteredPods m'))
               then (if length (filteredPods m') > 0
                     then m'\<lparr>cursor := int (length (filteredPods m')) - 1\<rparr>
                     else m'\<lparr>cursor := 0\<rparr>)
               else m', nilCmd))"

fun Update :: "env \<Rightarrow> model \<Rightarrow> Msg \<Rightarrow> panic + model \<times> Cmd" where
  "Update E m (WindowSizeMsg w h) =
     Inr (m\<lparr>width := w, height := h,
             viewport := \<lparr>vp_Width = w, vp_Height = int64_wrap (h - 10), vp_content = ''''\<rparr>\<rparr>,
          nilCmd)"
| "Update E m (KeyMsg k) = Update_key E m k"
| "Update E m tickMsg = Inr (m, tea_Batch [fetchPods, fetchClusterStats, tick])"
| "Update E m (podsMsg ps) = Update_podsMsg E m ps"
| "Update E m (statsMsg s) = Inr (m\<lparr>clusterStats := s\<rparr>, nilCmd)"
| "Update E m (nsMsg ns) = Inr (m\<lparr>namespaces := ''ALL'' # ns\<rparr>, nilCmd)"
| "Update E m (logsMsg s) =
     Inr (m\<lparr>logContent := s, viewport := (viewport m)\<lparr>vp_content := s\<rparr>\<rparr>, nilCmd)"
| "Update E m (diagMsg s) =
     Inr (m\<lparr>diagContent := s, viewport := (viewport m)\<lparr>vp_content := s\<rparr>\<rparr>, nilCmd)"
| "Update E m (yamlMsg s) =
     Inr (m\<lparr>yamlContent := s, viewport := (viewport m)\<lparr>vp_content := s\<rparr>\<rparr>, nilCmd)"
| "Update E m (deleteMsg s) = Inr (m\<lparr>msg := s\<rparr>, fetchPods)"
| "Update E m nilMsg = Inr (m, nilCmd)"

text \<open>A run of the event loop: the messages are applied in order; a panic ends the run.\<close>

fun run :: "env \<Rightarrow> model \<Rightarrow> Msg list \<Rightarrow> panic + model" where
  "run E m [] = Inr m"
| "run E m (ev # evs) =
     (case Update E m ev of Inl e \<Rightarrow> Inl e | Inr (m', c) \<Rightarrow> run E m' evs)"

subsection \<open>The commands' bodies\<close>

text \<open>
  The cluster API as the commands see it. Of a pod, a container status, a node and a
  metrics item only the fields that the program reads are kept. A metrics item carries the
  totals over its containers that \<open>resource.Quantity\<close> computes (\<open>MilliValue\<close> of the CPU
  sum, \<open>Value\<close> of the memory sum); \<open>p_Age\<close> is the text that \<open>shortAge\<close> makes of the
  pod's age (clock and floating point are outside this model). An API error is its text.
\<close>

record ContainerStateWaiting =
  w_Reason :: string

record ContainerStateTerminated =
  t_Reason :: string
  t_ExitCode :: "32 word"

record ContainerStatus =
  cs_RestartCount :: "32 word"
  cs_Ready :: bool
  cs_Waiting :: "ContainerStateWaiting option"
  cs_Terminated :: "ContainerStateTerminated option"

record Container =
  c_Name :: string
  c_Ports :: "32 word list"

record Pod =
  p_Namespace :: string
  p_Name :: string
  p_Age :: string
  p_Phase :: string
  p_PodIP :: string
  p_NodeName :: string
  p_Containers :: "Container list"
  p_ContainerStatuses :: "ContainerStatus list"

record PodMetrics =
  pm_Namespace :: string
  pm_Name :: string
  pm_CpuMilli :: "64 word"
  pm_Memory :: "64 word"

record Node =
  n_AllocatableCpuMilli :: "64 word"
  n_AllocatableMemory :: "64 word"

record NodeMetrics =
  nm_CpuMilli :: "64 word"
  nm_Memory :: "64 word"

record cluster =
  Pods_List :: "string + Pod list"
  PodMetricses_List :: "PodMetrics list option"
  Nodes_List :: "string + Node list"
  NodeMetricses_List :: "NodeMetrics list option"
  Namespaces_List :: "string + string list"
  Pods_Delete :: "string \<Rightarrow> string \<Rightarrow> string option"
  Pods_DeleteCollection :: "string \<Rightarrow> string option"

text \<open>Go's integer division truncates towards zero.\<close>

definition go_div :: "int \<Rightarrow> int \<Rightarrow> int" where
  "go_div a b = sgn a * sgn b * (\<bar>a\<bar> div \<bar>b\<bar>)"

text \<open>
  The loop of \<open>fetchPods\<close> over a pod's container statuses. It carries the restart sum,
  the ready count and the note; \<open>containerNote\<close> is the \<open>if\<close>/\<open>else if\<close> on one status.
\<close>

definition terminatedNote :: "ContainerStatus \<Rightarrow> string \<Rightarrow> string" where
  "terminatedNote c note =
     (case cs_Terminated c of
        None \<Rightarrow> note
      | Some t \<Rightarrow>
          if t_Reason t \<noteq> ''''
          then (if t_ExitCode t \<noteq> 0
                then t_Reason t @ '' ('' @ Sprintf_d (sint (t_ExitCode t)) @ '')''
                else t_Reason t)
          else note)"

definition containerNote :: "ContainerStatus \<Rightarrow> string \<Rightarrow> string" where
  "containerNote c note =
     (case cs_Waiting c of
        None \<Rightarrow> terminatedNote c note
      | Some w \<Rightarrow> if w_Reason w \<noteq> '''' then w_Reason w else terminatedNote c note)"

primrec statusLoop ::
  "ContainerStatus list \<Rightarrow> 32 word \<Rightarrow> int \<Rightarrow> string \<Rightarrow> 32 word \<times> int \<times> string" where
  "statusLoop [] r ready note = (r, ready, note)"
| "statusLoop (c # cs) r ready note =
     statusLoop cs (r + cs_RestartCount c) (if cs_Ready c then ready + 1 else ready)
       (containerNote c note)"

definition usageMap :: "PodMetrics list option \<Rightarrow> (string \<rightharpoonup> 64 word \<times> 64 word)" where
  "usageMap mList =
     (case mList of
        None \<Rightarrow> Map.empty
      | Some items \<Rightarrow>
          foldl (\<lambda>u i. u(pm_Namespace i @ ''/'' @ pm_Name i \<mapsto> (pm_CpuMilli i, pm_Memory i)))
            Map.empty items)"

definition buildPodInfo :: "(string \<rightharpoonup> 64 word \<times> 64 word) \<Rightarrow> Pod \<Rightarrow> PodInfo" where
  "buildPodInfo uMap p =
     (let total = int (length (p_ContainerStatuses p));
          port = (case p_Containers p of
                    [] \<Rightarrow> 0
                  | c # cs \<Rightarrow> (case c_Ports c of [] \<Rightarrow> 0 | q # qs \<Rightarrow> q));
          containerNames = map c_Name (p_Containers p);
          (r, ready, note) = statusLoop (p_ContainerStatuses p) 0 0 ''[OK]'';
          note1 = (if p_Phase p = ''Running'' \<and> ready = total then ''[OK]'' else note);
          note2 = (if p_Phase p = ''Succeeded'' then ''Completed'' else note1);
          u = uMap (p_Namespace p @ ''/'' @ p_Name p);
          rawCpu = (case u of None \<Rightarrow> 0 | Some (cpu, mem) \<Rightarrow> cpu);
          rawMem = (case u of None \<Rightarrow> 0 | Some (cpu, mem) \<Rightarrow> mem);
          cStr = (case u of None \<Rightarrow> ''-'' | Some v \<Rightarrow> Sprintf_d (sint rawCpu) @ ''m'');
          mStr = (case u of
                    None \<Rightarrow> ''-''
                  | Some v \<Rightarrow> Sprintf_d (go_div (sint rawMem) (1024 * 1024)) @ ''Mi'');
          isReady = ((ready = total \<and> total > 0) \<or> p_Phase p = ''Succeeded'');
          readyStr = Sprintf_d ready @ ''/'' @ Sprintf_d total
      in \<lparr>Namespace = p_Namespace p, Name = p_Name p, Ready = readyStr, Status = p_Phase p,
          Restarts = r, CpuUsage = cStr, MemUsage = mStr, RawCpu = rawCpu, RawMem = rawMem,
          NodeName = p_NodeName p, PodIP = p_PodIP p, IsReady = isReady, Message = note2,
          Port = port, Age = p_Age p, Containers = containerNames\<rparr>)"

definition fetchPods_body :: "cluster \<Rightarrow> Msg" where
  "fetchPods_body K =
     (case Pods_List K of
        Inl e \<Rightarrow> nilMsg
      | Inr items \<Rightarrow> podsMsg (map (buildPodInfo (usageMap (PodMetricses_List K))) items))"

definition fetchClusterStats_body :: "cluster \<Rightarrow> Msg" where
  "fetchClusterStats_body K =
     (case Nodes_List K of
        Inl err \<Rightarrow>
          statsMsg \<lparr>TotalCpuUsage = 0, TotalMemUsage = 0, TotalCpuCap = 0, TotalMemCap = 0,
                    NodeCount = 0\<rparr>
      | Inr nodes \<Rightarrow>
          let totalCpuCap = foldl (\<lambda>t n. t + n_AllocatableCpuMilli n) 0 nodes;
              totalMemCap = foldl (\<lambda>t n. t + n_AllocatableMemory n) 0 nodes;
              nodeMetrics = (case NodeMetricses_List K of None \<Rightarrow> [] | Some items \<Rightarrow> items);
              totalCpuUse = foldl (\<lambda>t nm. t + nm_CpuMilli nm) 0 nodeMetrics;
              totalMemUse = foldl (\<lambda>t nm. t + nm_Memory nm) 0 nodeMetrics
          in statsMsg \<lparr>TotalCpuUsage = totalCpuUse, TotalMemUsage = totalMemUse,
                       TotalCpuCap = totalCpuCap, TotalMemCap = totalMemCap,
                       NodeCount = int (length nodes)\<rparr>)"

definition fetchNamespaces_body :: "cluster \<Rightarrow> Msg" where
  "fetchNamespaces_body K =
     (case Namespaces_List K of Inl e \<Rightarrow> nilMsg | Inr names \<Rightarrow> nsMsg (sort names))"

text \<open>\<open>deletePod\<close> calls \<open>Delete\<close> and drops what it returns.\<close>

definition deletePod_body :: "cluster \<Rightarrow> PodInfo \<Rightarrow> Msg" where
  "deletePod_body K p =
     (case Pods_Delete K (Namespace p) (Name p) of
        None \<Rightarrow> deleteMsg ''Pod deleted.''
      | Some err \<Rightarrow> deleteMsg ''Pod deleted.'')"

definition cleanseNamespace_body :: "cluster \<Rightarrow> string \<Rightarrow> Msg" where
  "cleanseNamespace_body K ns =
     (case Pods_DeleteCollection K ns of
        Some err \<Rightarrow> deleteMsg (''Cleanse failed: '' @ err)
      | None \<Rightarrow>
          deleteMsg (''ALL PODS IN '' @ [CHR 0x27] @ ns @ [CHR 0x27] @ '' HAVE BEEN DELETED.''))"

text \<open>
  Running a command against the cluster gives the message that is fed back to \<open>Update\<close>.
  \<open>None\<close>: the command's result is outside this model (log streams, events, the external
  \<open>kubectl\<close>, the framework's own commands).
\<close>

fun perform :: "cluster \<Rightarrow> Cmd \<Rightarrow> Msg option" where
  "perform K fetchPods = Some (fetchPods_body K)"
| "perform K fetchClusterStats = Some (fetchClusterStats_body K)"
| "perform K fetchNamespaces = Some (fetchNamespaces_body K)"
| "perform K (deletePod p) = Some (deletePod_body K p)"
| "perform K (cleanseNamespace ns) = Some (cleanseNamespace_body K ns)"
| "perform K c = None"

subsection \<open>The properties as the specification words them\<close>

text \<open>
  Stability of a sort: for every element of the input, the elements that tie with it
  (neither is less than the other) come out in the order in which they went in.
\<close>

definition tie :: "('a \<Rightarrow> 'a \<Rightarrow> bool) \<Rightarrow> 'a \<Rightarrow> 'a \<Rightarrow> bool" where
  "tie lt x y \<longleftrightarrow> \<not> lt x y \<and> \<not> lt y x"

definition keeps_tie_order :: "('a \<Rightarrow> 'a \<Rightarrow> bool) \<Rightarrow> 'a list \<Rightarrow> 'a list \<Rightarrow> bool" where
  "keeps_tie_order lt xs ys \<longleftrightarrow> list_all (\<lambda>x. filter (tie lt x) ys = filter (tie lt x) xs) xs"

text \<open>
  The note of a pod by the specification's priority list: a waiting reason first, else a
  terminated reason (with the exit code when it is not zero), else \<open>[OK]\<close> for a Running
  pod whose containers are all ready, else \<open>Completed\<close> for a Succeeded pod, else the note
  seen so far (which is the initial \<open>[OK]\<close> when no container gave a reason).
\<close>

definition waitingReason :: "ContainerStatus \<Rightarrow> string option" where
  "waitingReason c =
     (case cs_Waiting c of
        None \<Rightarrow> None
      | Some w \<Rightarrow> if w_Reason w \<noteq> '''' then Some (w_Reason w) else None)"

definition terminatedReason :: "ContainerStatus \<Rightarrow> string option" where
  "terminatedReason c =
     (case cs_Terminated c of
        None \<Rightarrow> None
      | Some t \<Rightarrow>
          if t_Reason t = '''' then None
          else if t_ExitCode t \<noteq> 0
          then Some (t_Reason t @ '' ('' @ Sprintf_d (sint (t_ExitCode t)) @ '')'')
          else Some (t_Reason t))"

definition spec_note :: "Pod \<Rightarrow> string" where
  "spec_note p =
     (case List.map_filter waitingReason (p_ContainerStatuses p) of
        r # rs \<Rightarrow> r
      | [] \<Rightarrow>
          (case List.map_filter terminatedReason (p_ContainerStatuses p) of
             r # rs \<Rightarrow> r
           | [] \<Rightarrow>
               if p_Phase p = ''Running'' \<and> list_all cs_Ready (p_ContainerStatuses p)
               then ''[OK]''
               else if p_Phase p = ''Succeeded'' then ''Completed''
               else ''[OK]''))"

text \<open>
  The reason that one container status contributes to the note in the code: its waiting
  reason, or else its terminated reason.
\<close>

definition statusReason :: "ContainerStatus \<Rightarrow> string option" where
  "statusReason c = (case waitingReason c of Some r \<Rightarrow> Some r | None \<Rightarrow> terminatedReason c)"

subsection \<open>\<open>sort.Slice\<close> as the Go library runs it\<close>

text \<open>
  \<open>sort.Slice(x, less)\<close> calls \<open>pdqsort_func(lessSwap{less, swap}, 0, len(x), bits.Len(len(x)))\<close>
  (package \<open>sort\<close>, file \<open>zsortfunc.go\<close>, Go 1.19 and later). The definitions below follow
  that code for the part of it that a slice of fewer than 50 elements reaches before any
  second partition: a slice of at most 12 elements is sorted by \<open>insertionSort_func\<close>; a
  longer one gets a pivot from \<open>choosePivot_func\<close> (the median of three elements, counting
  the swaps), is returned as it is when no swap was counted and \<open>partialInsertionSort_func\<close>
  finds it in order (below 50 elements that function moves nothing), and is otherwise split
  by \<open>partition_func\<close>; each side of at most 12 elements is then sorted by
  \<open>insertionSort_func\<close>. Indices are Go \<open>int\<close>s; \<open>data.Less(i, j)\<close> is
  \<open>less\<close> on the elements at \<open>i\<close> and \<open>j\<close>, and \<open>data.Swap(i, j)\<close> exchanges them.

  In \<open>partition_func\<close> the two scans are \<open>partition_up\<close> and \<open>partition_down\<close>; the
  source runs them once before its \<open>for\<close> loop and once per round of it, doing the same
  steps both times, which \<open>partition_loop\<close> does in one recursion (the flag
  \<open>alreadyPartitioned\<close>, the only difference, is not read in this part of the sort).

  \<open>go_sort_Slice\<close> is \<open>None\<close> where the sort goes on to code that is not modelled
  here: a slice of 50 or more elements (the ninther pivot, shifting in
  \<open>partialInsertionSort_func\<close>), or a side of more than 12 elements after the partition
  (a second partition, \<open>partitionEqual_func\<close>, \<open>breakPatterns_func\<close>, \<open>heapSort_func\<close>).
  With fewer than 50 elements \<open>choosePivot_func\<close> counts at most three swaps, so the
  decreasing hint (twelve swaps) and \<open>reverseRange_func\<close> do not occur, and the limit
  \<open>bits.Len\<close> of the length is not zero.
\<close>

definition Less :: "('a \<Rightarrow> 'a \<Rightarrow> bool) \<Rightarrow> 'a list \<Rightarrow> int \<Rightarrow> int \<Rightarrow> bool" where
  "Less lt data i j = lt (data ! nat i) (data ! nat j)"

definition Swap :: "'a list \<Rightarrow> int \<Rightarrow> int \<Rightarrow> 'a list" where
  "Swap data i j = data[nat i := data ! nat j, nat j := data ! nat i]"

function insertionSort_inner ::
  "('a \<Rightarrow> 'a \<Rightarrow> bool) \<Rightarrow> int \<Rightarrow> int \<Rightarrow> 'a list \<Rightarrow> 'a list" where
  "insertionSort_inner lt a j data =
     (if j > a \<and> Less lt data j (j - 1)
      then insertionSort_inner lt a (j - 1) (Swap data j (j - 1))
      else data)"
  by pat_completeness auto
termination
  by (relation "measure (\<lambda>(lt, a, j, data). nat (j - a))") auto

declare insertionSort_inner.simps [simp del]

function insertionSort_outer ::
  "('a \<Rightarrow> 'a \<Rightarrow> bool) \<Rightarrow> int \<Rightarrow> int \<Rightarrow> int \<Rightarrow> 'a list \<Rightarrow> 'a list" where
  "insertionSort_outer lt a b i data =
     (if i < b then insertionSort_outer lt a b (i + 1) (insertionSort_inner lt a i data)
      else data)"
  by pat_completeness auto
termination
  by (relation "measure (\<lambda>(lt, a, b, i, data). nat (b - i))") auto

declare insertionSort_outer.simps [simp del]

definition insertionSort_func :: "('a \<Rightarrow> 'a \<Rightarrow> bool) \<Rightarrow> 'a list \<Rightarrow> int \<Rightarrow> int \<Rightarrow> 'a list" where
  "insertionSort_func lt data a b = insertionSort_outer lt a b (a + 1) data"

definition order2_func ::
  "('a \<Rightarrow> 'a \<Rightarrow> bool) \<Rightarrow> 'a list \<Rightarrow> int \<Rightarrow> int \<Rightarrow> nat \<Rightarrow> int \<times> int \<times> nat" where
  "order2_func lt data a b swaps =
     (if Less lt data b a then (b, a, swaps + 1) else (a, b, swaps))"

definition median_func ::
  "('a \<Rightarrow> 'a \<Rightarrow> bool) \<Rightarrow> 'a list \<Rightarrow> int \<Rightarrow> int \<Rightarrow> int \<Rightarrow> nat \<Rightarrow> int \<times> nat" where
  "median_func lt data a b c swaps =
     (case order2_func lt data a b swaps of (a1, b1, s1) \<Rightarrow>
      case order2_func lt data b1 c s1 of (b2, c2, s2) \<Rightarrow>
      case order2_func lt data a1 b2 s2 of (a3, b3, s3) \<Rightarrow> (b3, s3))"

definition choosePivot_func ::
  "('a \<Rightarrow> 'a \<Rightarrow> bool) \<Rightarrow> 'a list \<Rightarrow> int \<Rightarrow> int \<Rightarrow> int \<times> nat" where
  "choosePivot_func lt data a b =
     (let l = b - a; i = a + l div 4 * 1; j = a + l div 4 * 2; k = a + l div 4 * 3
      in if l \<ge> 8 then median_func lt data i j k 0 else (j, 0))"

function partialInsertionSort_scan ::
  "('a \<Rightarrow> 'a \<Rightarrow> bool) \<Rightarrow> 'a list \<Rightarrow> int \<Rightarrow> int \<Rightarrow> int" where
  "partialInsertionSort_scan lt data b i =
     (if i < b \<and> \<not> Less lt data i (i - 1) then partialInsertionSort_scan lt data b (i + 1)
      else i)"
  by pat_completeness auto
termination
  by (relation "measure (\<lambda>(lt, data, b, i). nat (b - i))") auto

declare partialInsertionSort_scan.simps [simp del]

definition partialInsertionSort_func ::
  "('a \<Rightarrow> 'a \<Rightarrow> bool) \<Rightarrow> 'a list \<Rightarrow> int \<Rightarrow> int \<Rightarrow> bool" where
  "partialInsertionSort_func lt data a b \<longleftrightarrow> partialInsertionSort_scan lt data b (a + 1) = b"

function partition_up :: "('a \<Rightarrow> 'a \<Rightarrow> bool) \<Rightarrow> 'a list \<Rightarrow> int \<Rightarrow> int \<Rightarrow> int \<Rightarrow> int" where
  "partition_up lt data a i j =
     (if i \<le> j \<and> Less lt data i a then partition_up lt data a (i + 1) j else i)"
  by pat_completeness auto
termination
  by (relation "measure (\<lambda>(lt, data, a, i, j). nat (j + 1 - i))") auto

declare partition_up.simps [simp del]

function partition_down :: "('a \<Rightarrow> 'a \<Rightarrow> bool) \<Rightarrow> 'a list \<Rightarrow> int \<Rightarrow> int \<Rightarrow> int \<Rightarrow> int" where
  "partition_down lt data a i j =
     (if i \<le> j \<and> \<not> Less lt data j a then partition_down lt data a i (j - 1) else j)"
  by pat_completeness auto
termination
  by (relation "measure (\<lambda>(lt, data, a, i, j). nat (j + 1 - i))") auto

declare partition_down.simps [simp del]

function partition_loop ::
  "('a \<Rightarrow> 'a \<Rightarrow> bool) \<Rightarrow> int \<Rightarrow> 'a list \<Rightarrow> int \<Rightarrow> int \<Rightarrow> 'a list \<times> int" where
  "partition_loop lt a data i j =
     (let i1 = partition_up lt data a i j; j1 = partition_down lt data a i1 j
      in if i1 > j1 then (data, j1)
         else partition_loop lt a (Swap data i1 j1) (i1 + 1) (j1 - 1))"
  by pat_completeness auto
termination
proof (relation "measure (\<lambda>(lt, a, data, i, j). nat (j + 1 - i))")
  show "wf (measure (\<lambda>(lt :: 'a \<Rightarrow> 'a \<Rightarrow> bool, a :: int, data :: 'a list, i :: int, j :: int). nat (j + 1 - i)))"
    by simp
next
  fix lt :: "'a \<Rightarrow> 'a \<Rightarrow> bool" and a :: int and data :: "'a list" and i j i1 j1 :: int
  assume i1: "i1 = partition_up lt data a i j"
    and j1: "j1 = partition_down lt data a i1 j"
    and le: "\<not> j1 < i1"
  have up: "i \<le> partition_up lt data a i j" for i
    by (induction lt data a i j rule: partition_up.induct)
      (subst partition_up.simps, auto)
  have down: "partition_down lt data a i j \<le> j" for i j
    by (induction lt data a i j rule: partition_down.induct)
      (subst partition_down.simps, auto)
  from up [of i] down [of i1 j] i1 j1 le
  have "nat (j1 - 1 + 1 - (i1 + 1)) < nat (j + 1 - i)"
    by linarith
  then show "((lt, a, Swap data i1 j1, i1 + 1, j1 - 1), (lt, a, data, i, j))
          \<in> measure (\<lambda>(lt, a, data, i, j). nat (j + 1 - i))"
    by simp
qed

declare partition_loop.simps [simp del]

definition partition_func ::
  "('a \<Rightarrow> 'a \<Rightarrow> bool) \<Rightarrow> 'a list \<Rightarrow> int \<Rightarrow> int \<Rightarrow> int \<Rightarrow> 'a list \<times> int" where
  "partition_func lt data a b pivot =
     (case partition_loop lt a (Swap data a pivot) (a + 1) (b - 1) of
        (data1, j) \<Rightarrow> (Swap data1 j a, j))"

definition go_sort_Slice :: "('a \<Rightarrow> 'a \<Rightarrow> bool) \<Rightarrow> 'a list \<Rightarrow> 'a list option" where
  "go_sort_Slice lt data =
     (let n = int (length data)
      in if n \<le> 12 then Some (insertionSort_func lt data 0 n)
         else if n \<ge> 50 then None
         else case choosePivot_func lt data 0 n of
           (pivot, swaps) \<Rightarrow>
             if swaps = 0 \<and> partialInsertionSort_func lt data 0 n then Some data
             else case partition_func lt data 0 n pivot of
               (data1, mid) \<Rightarrow>
                 if mid > 12 \<or> n - (mid + 1) > 12 then None
                 else if mid < n - mid
                 then Some (insertionSort_func lt (insertionSort_func lt data1 0 mid) (mid + 1) n)
                 else Some (insertionSort_func lt (insertionSort_func lt data1 (mid + 1) n) 0 mid))"

subsection \<open>Instances of the library functions, and test data\<close>

text \<open>A sorting function that meets the contract of \<open>sort.Slice\<close>: an insertion sort.\<close>

fun insert_by :: "('a \<Rightarrow> 'a \<Rightarrow> bool) \<Rightarrow> 'a \<Rightarrow> 'a list \<Rightarrow> 'a list" where
  "insert_by lt x [] = [x]"
| "insert_by lt x (y # ys) = (if lt y x then y # insert_by lt x ys else x # y # ys)"

fun insertion_sort :: "('a \<Rightarrow> 'a \<Rightarrow> bool) \<Rightarrow> 'a list \<Rightarrow> 'a list" where
  "insertion_sort lt [] = []"
| "insertion_sort lt (x # xs) = insert_by lt x (insertion_sort lt xs)"

text \<open>\<open>strings.ToLower\<close> on ASCII text; a focused text input with the cursor at the end.\<close>

definition ascii_ToLower :: "string \<Rightarrow> string" where
  "ascii_ToLower s =
     map (\<lambda>c. if CHR ''A'' \<le> c \<and> c \<le> CHR ''Z'' then char_of (of_char c + (32 :: nat)) else c) s"

definition typing :: "textinput_Model \<Rightarrow> string \<Rightarrow> textinput_Model" where
  "typing ti k =
     (if \<not> ti_focus ti then ti
      else if k = ''backspace'' then ti\<lparr>ti_Value := butlast (ti_Value ti)\<rparr>
      else if length k = 1 then ti\<lparr>ti_Value := ti_Value ti @ k\<rparr>
      else ti)"

definition test_env :: env where
  "test_env =
     \<lparr>sort_Slice = insertion_sort, strings_ToLower = ascii_ToLower, textinput_Update = typing,
      viewport_Update = (\<lambda>v k. v), exec_Start = (\<lambda>args. None)\<rparr>"

definition test_pod :: "string \<Rightarrow> string \<Rightarrow> string \<Rightarrow> 32 word \<Rightarrow> bool \<Rightarrow> 64 word \<Rightarrow> string list \<Rightarrow> PodInfo" where
  "test_pod ns name phase restarts rdy cpu cs =
     \<lparr>Namespace = ns, Name = name, Ready = ''1/1'', Status = phase, Restarts = restarts,
      CpuUsage = ''-'', MemUsage = ''-'', RawCpu = cpu, RawMem = 0, NodeName = ''node-1'',
      PodIP = ''10.0.0.1'', IsReady = rdy, Message = ''[OK]'', Port = 0, Age = ''5m'',
      Containers = cs\<rparr>"

definition pod_api :: PodInfo where
  "pod_api = test_pod ''prod'' ''api'' ''Running'' 0 True 250 [''app'']"

definition pod_db :: PodInfo where
  "pod_db = test_pod ''prod'' ''db'' ''Running'' 0 True 250 [''postgres'', ''exporter'']"

definition pod_job :: PodInfo where
  "pod_job = test_pod ''batch'' ''job'' ''Pending'' 0 False 0 []"

definition pod_web :: PodInfo where
  "pod_web = test_pod ''prod'' ''web'' ''Running'' 3 True 100 [''nginx'']"

definition test_input :: textinput_Model where
  "test_input = \<lparr>ti_Value = '''', ti_focus = False\<rparr>"

definition test_model :: model where
  "test_model =
     (initialModel ''/root/.kube/config'' test_input)
       \<lparr>pods := [pod_api, pod_db, pod_job, pod_web],
        filteredPods := [pod_job, pod_api, pod_db, pod_web],
        namespaces := [''ALL'', ''batch'', ''prod''], loading := False, height := 40\<rparr>"

text \<open>
  Thirteen Running pods in the order of the snapshot: twelve workers without a metrics
  sample (CPU use 0) and, last, a pod that uses 120 millicores. \<open>go_env\<close> is the test
  environment with \<open>sort.Slice\<close> as the Go library runs it.
\<close>

definition worker :: "nat \<Rightarrow> PodInfo" where
  "worker i = test_pod ''prod'' (''worker-'' @ digits i) ''Running'' 0 True 0 [''app'']"

definition busy_pod :: PodInfo where
  "busy_pod = test_pod ''prod'' ''ingest'' ''Running'' 0 True 120 [''app'']"

definition thirteen_pods :: "PodInfo list" where
  "thirteen_pods =
     [worker 0, worker 1, worker 2, worker 3, worker 4, worker 5, worker 6,
      worker 7, worker 8, worker 9, worker 10, worker 11, busy_pod]"

definition go_env :: env where
  "go_env = test_env\<lparr>sort_Slice := (\<lambda>lt data. the (go_sort_Slice lt data))\<rparr>"

text \<open>A cluster whose every call is refused, and data for the fetch commands.\<close>

definition zero_stats :: ClusterStats where
  "zero_stats =
     \<lparr>TotalCpuUsage = 0, TotalMemUsage = 0, TotalCpuCap = 0, TotalMemCap = 0, NodeCount = 0\<rparr>"

definition test_stats :: ClusterStats where
  "test_stats =
     \<lparr>TotalCpuUsage = 1500, TotalMemUsage = 4096, TotalCpuCap = 8000, TotalMemCap = 16384,
      NodeCount = 3\<rparr>"

definition failing_cluster :: cluster where
  "failing_cluster =
     \<lparr>Pods_List = Inl ''connection refused'', PodMetricses_List = None,
      Nodes_List = Inl ''connection refused'', NodeMetricses_List = None,
      Namespaces_List = Inl ''connection refused'',
      Pods_Delete = (\<lambda>ns name. Some ''forbidden''),
      Pods_DeleteCollection = (\<lambda>ns. Some ''forbidden'')\<rparr>"

text \<open>
  A Running pod of two containers, neither ready: the first waits in
  \<open>CrashLoopBackOff\<close>, the second has terminated with \<open>Error\<close> and exit code 1.
\<close>

definition crashing_pod :: Pod where
  "crashing_pod =
     \<lparr>p_Namespace = ''prod'', p_Name = ''api'', p_Age = ''5m'', p_Phase = ''Running'',
      p_PodIP = ''10.0.0.1'', p_NodeName = ''node-1'',
      p_Containers = [\<lparr>c_Name = ''app'', c_Ports = [8080]\<rparr>, \<lparr>c_Name = ''sidecar'', c_Ports = []\<rparr>],
      p_ContainerStatuses =
        [\<lparr>cs_RestartCount = 4, cs_Ready = False,
          cs_Waiting = Some \<lparr>w_Reason = ''CrashLoopBackOff''\<rparr>, cs_Terminated = None\<rparr>,
         \<lparr>cs_RestartCount = 1, cs_Ready = False, cs_Waiting = None,
          cs_Terminated = Some \<lparr>t_Reason = ''Error'', t_ExitCode = 1\<rparr>\<rparr>]\<rparr>"

section \<open>Facts about the library instances\<close>

lemma strict_weak_order_asym: "strict_weak_order lt \<Longrightarrow> lt a b \<Longrightarrow> \<not> lt b a"
  unfolding strict_weak_order_def by metis

lemma strict_weak_order_neg_trans:
  assumes "strict_weak_order lt" and "\<not> lt z y" and "\<not> lt y x"
  shows "\<not> lt z x"
  using assms unfolding strict_weak_order_def by metis

lemma mset_insert_by: "mset (insert_by lt x xs) = add_mset x (mset xs)"
  by (induction xs) auto

lemma set_insert_by: "set (insert_by lt x xs) = insert x (set xs)"
  by (induction xs) auto

lemma mset_insertion_sort: "mset (insertion_sort lt xs) = mset xs"
  by (induction xs) (auto simp: mset_insert_by)

lemma sorted_insert_by:
  assumes swo: "strict_weak_order lt" and srt: "sorted_wrt (\<lambda>a b. \<not> lt b a) ys"
  shows "sorted_wrt (\<lambda>a b. \<not> lt b a) (insert_by lt x ys)"
  using srt
proof (induction ys)
  case Nil
  then show ?case by simp
next
  case (Cons y ys)
  show ?case
  proof (cases "lt y x")
    case True
    then have "\<not> lt x y"
      using strict_weak_order_asym [OF swo] by blast
    with True Cons show ?thesis
      by (auto simp: set_insert_by)
  next
    case False
    have "\<not> lt z x" if "z \<in> set ys" for z
      using strict_weak_order_neg_trans [OF swo, of z y x] that Cons.prems False by auto
    with False Cons.prems show ?thesis by auto
  qed
qed

lemma sorted_insertion_sort:
  "strict_weak_order lt \<Longrightarrow> sorted_wrt (\<lambda>a b. \<not> lt b a) (insertion_sort lt xs)"
  by (induction xs) (auto simp: sorted_insert_by)

lemma insertion_sort_contract: "sort_Slice_contract insertion_sort"
  by (simp add: sort_Slice_contract_def mset_insertion_sort sorted_insertion_sort)

lemma test_env_contract: "sort_Slice_contract (sort_Slice test_env)"
  by (simp add: test_env_def insertion_sort_contract)

section \<open>The filter\<close>

lemma filterLoop_filter:
  "filterLoop E ns issues t ps target =
     target @ filter (\<lambda>p. nsMatch ns p \<and> \<not> (issues \<and> noIssue p) \<and> searchMatch E t p) ps"
  by (induction ps arbitrary: target) (auto simp: nsMatch_def noIssue_def searchMatch_def)

lemma main_filterLoop_filter:
  "main_filterLoop ns issues ps target =
     target @ filter (\<lambda>p. nsMatch ns p \<and> \<not> (issues \<and> noIssue p)) ps"
  by (induction ps arbitrary: target) (auto simp: nsMatch_def noIssue_def)

lemma filterPods_Inr:
  assumes "index (namespaces m) (currentNsIdx m) = Inr selectedNs"
  shows "filterPods E m =
     Inr (m\<lparr>filteredPods :=
        sort_Slice E (podLess (sort_mode m))
          (filter (\<lambda>p. nsMatch selectedNs p \<and> \<not> (showIssues m \<and> noIssue p)
                      \<and> searchMatch E (strings_ToLower E (ti_Value (textInput m))) p)
             (pods m))\<rparr>)"
  using assms by (simp add: filterPods_def filterLoop_filter Let_def)

lemma main_filterPods_Inr:
  assumes "index (namespaces m) (currentNsIdx m) = Inr selectedNs"
  shows "main_filterPods m =
     Inr (m\<lparr>filteredPods :=
        filter (\<lambda>p. nsMatch selectedNs p \<and> \<not> (showIssues m \<and> noIssue p)) (pods m)\<rparr>)"
  using assms by (simp add: main_filterPods_def main_filterLoop_filter)

lemma sort_Slice_mset:
  "sort_Slice_contract srt \<Longrightarrow> mset (srt lt xs) = mset xs"
  by (simp add: sort_Slice_contract_def)

lemma sort_Slice_set:
  "sort_Slice_contract srt \<Longrightarrow> set (srt lt xs) = set xs"
  by (metis sort_Slice_mset set_mset_mset)

lemma sort_Slice_sorted:
  "sort_Slice_contract srt \<Longrightarrow> strict_weak_order lt \<Longrightarrow>
     sorted_wrt (\<lambda>a b. \<not> lt b a) (srt lt xs)"
  by (simp add: sort_Slice_contract_def)

lemma index_test_model_ALL: "index (namespaces test_model) (currentNsIdx test_model) = Inr ''ALL''"
  by (simp add: index_def test_model_def initialModel_def)

text \<open>
  C1. With the issues-only toggle on, \<open>filterPods\<close> keeps exactly the pods of the snapshot
  that pass the namespace and search predicates and are not (Running or Succeeded, with no
  restart, and ready); each as often as the snapshot has it. The same holds for the
  earlier revision of \<open>filterPods\<close>, which has no search predicate and keeps the order.
\<close>

theorem C1_issues_only_filter:
  assumes contract: "sort_Slice_contract (sort_Slice E)"
    and issues: "showIssues m"
    and ns: "index (namespaces m) (currentNsIdx m) = Inr selectedNs"
  shows "(\<exists>m'. filterPods E m = Inr m' \<and>
            (\<forall>p. p \<in> set (filteredPods m') \<longleftrightarrow>
                  p \<in> set (pods m) \<and> nsMatch selectedNs p
                  \<and> searchMatch E (strings_ToLower E (ti_Value (textInput m))) p
                  \<and> \<not> ((Status p = ''Running'' \<or> Status p = ''Succeeded'')
                        \<and> Restarts p = 0 \<and> IsReady p)) \<and>
            mset (filteredPods m') =
              filter_mset (\<lambda>p. nsMatch selectedNs p
                  \<and> searchMatch E (strings_ToLower E (ti_Value (textInput m))) p
                  \<and> \<not> ((Status p = ''Running'' \<or> Status p = ''Succeeded'')
                        \<and> Restarts p = 0 \<and> IsReady p)) (mset (pods m)))
       \<and> (\<exists>m'. main_filterPods m = Inr m' \<and>
            filteredPods m' =
              filter (\<lambda>p. nsMatch selectedNs p
                  \<and> \<not> ((Status p = ''Running'' \<or> Status p = ''Succeeded'')
                        \<and> Restarts p = 0 \<and> IsReady p)) (pods m))"
proof (intro conjI)
  let ?keep = "\<lambda>p. nsMatch selectedNs p \<and> \<not> (showIssues m \<and> noIssue p)
                  \<and> searchMatch E (strings_ToLower E (ti_Value (textInput m))) p"
  let ?out = "sort_Slice E (podLess (sort_mode m)) (filter ?keep (pods m))"
  have run: "filterPods E m = Inr (m\<lparr>filteredPods := ?out\<rparr>)"
    by (rule filterPods_Inr [OF ns])
  have members: "set ?out = set (filter ?keep (pods m))"
    by (rule sort_Slice_set [OF contract])
  have copies: "mset ?out = mset (filter ?keep (pods m))"
    by (rule sort_Slice_mset [OF contract])
  have keep: "?keep p \<longleftrightarrow> nsMatch selectedNs p
                  \<and> searchMatch E (strings_ToLower E (ti_Value (textInput m))) p
                  \<and> \<not> ((Status p = ''Running'' \<or> Status p = ''Succeeded'')
                        \<and> Restarts p = 0 \<and> IsReady p)" for p
    using issues by (auto simp: noIssue_def)
  show "\<exists>m'. filterPods E m = Inr m' \<and>
            (\<forall>p. p \<in> set (filteredPods m') \<longleftrightarrow>
                  p \<in> set (pods m) \<and> nsMatch selectedNs p
                  \<and> searchMatch E (strings_ToLower E (ti_Value (textInput m))) p
                  \<and> \<not> ((Status p = ''Running'' \<or> Status p = ''Succeeded'')
                        \<and> Restarts p = 0 \<and> IsReady p)) \<and>
            mset (filteredPods m') =
              filter_mset (\<lambda>p. nsMatch selectedNs p
                  \<and> searchMatch E (strings_ToLower E (ti_Value (textInput m))) p
                  \<and> \<not> ((Status p = ''Running'' \<or> Status p = ''Succeeded'')
                        \<and> Restarts p = 0 \<and> IsReady p)) (mset (pods m))"
  proof (intro exI conjI allI)
    show "filterPods E m = Inr (m\<lparr>filteredPods := ?out\<rparr>)" by (rule run)
  next
    fix p
    show "p \<in> set (filteredPods (m\<lparr>filteredPods := ?out\<rparr>)) \<longleftrightarrow>
            p \<in> set (pods m) \<and> nsMatch selectedNs p
            \<and> searchMatch E (strings_ToLower E (ti_Value (textInput m))) p
            \<and> \<not> ((Status p = ''Running'' \<or> Status p = ''Succeeded'')
                  \<and> Restarts p = 0 \<and> IsReady p)"
      using members keep [of p] by auto
  next
    have "filter ?keep (pods m) =
            filter (\<lambda>p. nsMatch selectedNs p
                  \<and> searchMatch E (strings_ToLower E (ti_Value (textInput m))) p
                  \<and> \<not> ((Status p = ''Running'' \<or> Status p = ''Succeeded'')
                        \<and> Restarts p = 0 \<and> IsReady p)) (pods m)"
      using keep by (intro filter_cong refl) blast
    then show "mset (filteredPods (m\<lparr>filteredPods := ?out\<rparr>)) =
            filter_mset (\<lambda>p. nsMatch selectedNs p
                  \<and> searchMatch E (strings_ToLower E (ti_Value (textInput m))) p
                  \<and> \<not> ((Status p = ''Running'' \<or> Status p = ''Succeeded'')
                        \<and> Restarts p = 0 \<and> IsReady p)) (mset (pods m))"
      using copies by simp
  qed
next
  have "filter (\<lambda>p. nsMatch selectedNs p \<and> \<not> (showIssues m \<and> noIssue p)) (pods m) =
          filter (\<lambda>p. nsMatch selectedNs p
                  \<and> \<not> ((Status p = ''Running'' \<or> Status p = ''Succeeded'')
                        \<and> Restarts p = 0 \<and> IsReady p)) (pods m)"
    using issues by (simp add: noIssue_def)
  then show "\<exists>m'. main_filterPods m = Inr m' \<and>
            filteredPods m' =
              filter (\<lambda>p. nsMatch selectedNs p
                  \<and> \<not> ((Status p = ''Running'' \<or> Status p = ''Succeeded'')
                        \<and> Restarts p = 0 \<and> IsReady p)) (pods m)"
    using main_filterPods_Inr [OF ns] by simp
qed

theorem C1_issues_only_filter_witness:
  "sort_Slice_contract (sort_Slice test_env)
   \<and> showIssues (test_model\<lparr>showIssues := True\<rparr>)
   \<and> index (namespaces (test_model\<lparr>showIssues := True\<rparr>))
        (currentNsIdx (test_model\<lparr>showIssues := True\<rparr>)) = Inr ''ALL''
   \<and> (\<exists>m'. filterPods test_env (test_model\<lparr>showIssues := True\<rparr>) = Inr m'
         \<and> pod_job \<in> set (filteredPods m') \<and> pod_web \<in> set (filteredPods m')
         \<and> pod_api \<notin> set (filteredPods m') \<and> pod_db \<notin> set (filteredPods m'))"
proof -
  let ?m = "test_model\<lparr>showIssues := True\<rparr>"
  have h1: "sort_Slice_contract (sort_Slice test_env)"
    by (rule test_env_contract)
  have h2: "showIssues ?m" by simp
  have h3: "index (namespaces ?m) (currentNsIdx ?m) = Inr ''ALL''"
    using index_test_model_ALL by simp
  have vals: "ti_Value (textInput ?m) = ''''" "pods ?m = [pod_api, pod_db, pod_job, pod_web]"
    by (simp_all add: test_model_def initialModel_def test_input_def)
  have lower: "strings_ToLower test_env '''' = ''''"
    by (simp add: test_env_def ascii_ToLower_def)
  from C1_issues_only_filter [OF h1 h2 h3]
  obtain m' where run: "filterPods test_env ?m = Inr m'"
    and iff: "\<And>p. p \<in> set (filteredPods m') \<longleftrightarrow>
                  p \<in> set (pods ?m) \<and> nsMatch ''ALL'' p
                  \<and> searchMatch test_env (strings_ToLower test_env (ti_Value (textInput ?m))) p
                  \<and> \<not> ((Status p = ''Running'' \<or> Status p = ''Succeeded'')
                        \<and> Restarts p = 0 \<and> IsReady p)"
    by blast
  have "pod_job \<in> set (filteredPods m')"
    unfolding iff vals lower
    by (simp add: nsMatch_def searchMatch_def pod_job_def test_pod_def)
  moreover have "pod_web \<in> set (filteredPods m')"
    unfolding iff vals lower
    by (simp add: nsMatch_def searchMatch_def pod_web_def test_pod_def)
  moreover have "pod_api \<notin> set (filteredPods m')"
    unfolding iff vals lower
    by (simp add: nsMatch_def searchMatch_def pod_api_def test_pod_def)
  moreover have "pod_db \<notin> set (filteredPods m')"
    unfolding iff vals lower
    by (simp add: nsMatch_def searchMatch_def pod_db_def test_pod_def)
  ultimately show ?thesis
    using h1 h2 h3 run by blast
qed

section \<open>The sort\<close>

lemma strict_weak_order_podLess: "strict_weak_order (podLess s)"
  unfolding strict_weak_order_def podLess_def
  by (cases s) (auto split: if_splits)

text \<open>
  C2, as the code has it. \<open>filterPods\<close> hands the kept pods to \<open>sort.Slice\<close>, so the view is
  a rearrangement of the kept pods in which no pod stands after one that it is less than
  under the active key: CPU use does not increase along the view in CPU mode, memory use
  does not in memory mode, and in the default mode no Running pod precedes a pod that is
  not Running and names do not decrease within either group. Nothing is promised about
  the order of pods that tie.
\<close>

theorem C2_sorted_rearrangement:
  assumes contract: "sort_Slice_contract (sort_Slice E)"
    and ns: "index (namespaces m) (currentNsIdx m) = Inr selectedNs"
  shows "\<exists>m'. filterPods E m = Inr m' \<and>
           mset (filteredPods m') =
             mset (filterLoop E selectedNs (showIssues m)
                     (strings_ToLower E (ti_Value (textInput m))) (pods m) []) \<and>
           sorted_wrt (\<lambda>a b. \<not> podLess (sort_mode m) b a) (filteredPods m') \<and>
           (sort_mode m = sortCPU \<longrightarrow>
              sorted_wrt (\<lambda>a b. sint (RawCpu b) \<le> sint (RawCpu a)) (filteredPods m')) \<and>
           (sort_mode m = sortMem \<longrightarrow>
              sorted_wrt (\<lambda>a b. sint (RawMem b) \<le> sint (RawMem a)) (filteredPods m')) \<and>
           (sort_mode m = sortDefault \<longrightarrow>
              sorted_wrt (\<lambda>a b. (Status a = ''Running'' \<longrightarrow> Status b = ''Running'') \<and>
                   ((Status a = ''Running'') = (Status b = ''Running'') \<longrightarrow> Name a \<le> Name b))
                (filteredPods m'))"
proof -
  let ?kept = "filterLoop E selectedNs (showIssues m)
                 (strings_ToLower E (ti_Value (textInput m))) (pods m) []"
  let ?out = "sort_Slice E (podLess (sort_mode m)) ?kept"
  have run: "filterPods E m = Inr (m\<lparr>filteredPods := ?out\<rparr>)"
    using ns by (simp add: filterPods_def Let_def)
  have perm: "mset ?out = mset ?kept"
    by (rule sort_Slice_mset [OF contract])
  have ordered: "sorted_wrt (\<lambda>a b. \<not> podLess (sort_mode m) b a) ?out"
    by (rule sort_Slice_sorted [OF contract strict_weak_order_podLess])
  have cpu: "sorted_wrt (\<lambda>a b. sint (RawCpu b) \<le> sint (RawCpu a)) ?out"
    if "sort_mode m = sortCPU"
    using ordered that by (simp add: podLess_def not_less)
  have mem: "sorted_wrt (\<lambda>a b. sint (RawMem b) \<le> sint (RawMem a)) ?out"
    if "sort_mode m = sortMem"
    using ordered that by (simp add: podLess_def not_less)
  have dflt: "sorted_wrt (\<lambda>a b. (Status a = ''Running'' \<longrightarrow> Status b = ''Running'') \<and>
                   ((Status a = ''Running'') = (Status b = ''Running'') \<longrightarrow> Name a \<le> Name b))
                ?out"
    if "sort_mode m = sortDefault"
  proof (rule sorted_wrt_mono_rel [OF _ ordered])
    fix a b
    assume "\<not> podLess (sort_mode m) b a"
    then show "(Status a = ''Running'' \<longrightarrow> Status b = ''Running'') \<and>
                 ((Status a = ''Running'') = (Status b = ''Running'') \<longrightarrow> Name a \<le> Name b)"
      using that by (auto simp: podLess_def split: if_splits)
  qed
  show ?thesis
    using run perm ordered cpu mem dflt by (intro exI [of _ "m\<lparr>filteredPods := ?out\<rparr>"]) simp
qed

theorem C2_sorted_rearrangement_witness:
  "sort_Slice_contract (sort_Slice test_env)
   \<and> index (namespaces (test_model\<lparr>sort_mode := sortCPU\<rparr>))
        (currentNsIdx (test_model\<lparr>sort_mode := sortCPU\<rparr>)) = Inr ''ALL''
   \<and> (\<exists>m'. filterPods test_env (test_model\<lparr>sort_mode := sortCPU\<rparr>) = Inr m'
         \<and> mset (filteredPods m') = mset [pod_api, pod_db, pod_job, pod_web]
         \<and> sorted_wrt (\<lambda>a b. sint (RawCpu b) \<le> sint (RawCpu a)) (filteredPods m'))"
proof -
  let ?m = "test_model\<lparr>sort_mode := sortCPU\<rparr>"
  have h1: "sort_Slice_contract (sort_Slice test_env)"
    by (rule test_env_contract)
  have h2: "index (namespaces ?m) (currentNsIdx ?m) = Inr ''ALL''"
    using index_test_model_ALL by simp
  have kept: "filterLoop test_env ''ALL'' (showIssues ?m)
                (strings_ToLower test_env (ti_Value (textInput ?m))) (pods ?m) []
              = [pod_api, pod_db, pod_job, pod_web]"
    by (simp add: test_model_def initialModel_def test_input_def test_env_def
        ascii_ToLower_def)
  from C2_sorted_rearrangement [OF h1 h2] kept
  have "\<exists>m'. filterPods test_env ?m = Inr m'
         \<and> mset (filteredPods m') = mset [pod_api, pod_db, pod_job, pod_web]
         \<and> sorted_wrt (\<lambda>a b. sint (RawCpu b) \<le> sint (RawCpu a)) (filteredPods m')"
    by auto
  with h1 h2 show ?thesis by blast
qed

lemma podLess_thirteen:
  "podLess sortCPU (worker i) (worker j) = False"
  "podLess sortCPU (worker i) busy_pod = False"
  "podLess sortCPU busy_pod (worker i) = True"
  "podLess sortCPU busy_pod busy_pod = False"
  by (simp_all add: podLess_def worker_def busy_pod_def test_pod_def)

lemma choosePivot_thirteen: "choosePivot_func (podLess sortCPU) thirteen_pods 0 13 = (6, 0)"
  by (simp add: thirteen_pods_def choosePivot_func_def median_func_def order2_func_def
      Less_def podLess_thirteen)

lemma partialInsertionSort_thirteen:
  "\<not> partialInsertionSort_func (podLess sortCPU) thirteen_pods 0 13"
  by (simp add: thirteen_pods_def partialInsertionSort_func_def partialInsertionSort_scan.simps
      Less_def podLess_thirteen)

lemma partition_thirteen:
  "partition_func (podLess sortCPU) thirteen_pods 0 13 6 =
     ([busy_pod, worker 6, worker 2, worker 3, worker 4, worker 5, worker 0,
       worker 7, worker 8, worker 9, worker 10, worker 11, worker 1], 1)"
  by (simp add: thirteen_pods_def partition_func_def partition_loop.simps partition_up.simps
      partition_down.simps Swap_def Less_def podLess_thirteen Let_def)

lemma insertionSort_left:
  "insertionSort_func (podLess sortCPU)
     [busy_pod, worker 6, worker 2, worker 3, worker 4, worker 5, worker 0,
      worker 7, worker 8, worker 9, worker 10, worker 11, worker 1] 0 1
   = [busy_pod, worker 6, worker 2, worker 3, worker 4, worker 5, worker 0,
      worker 7, worker 8, worker 9, worker 10, worker 11, worker 1]"
  by (simp add: insertionSort_func_def insertionSort_outer.simps insertionSort_inner.simps
      Swap_def Less_def podLess_thirteen)

lemma insertionSort_right:
  "insertionSort_func (podLess sortCPU)
     [busy_pod, worker 6, worker 2, worker 3, worker 4, worker 5, worker 0,
      worker 7, worker 8, worker 9, worker 10, worker 11, worker 1] 2 13
   = [busy_pod, worker 6, worker 2, worker 3, worker 4, worker 5, worker 0,
      worker 7, worker 8, worker 9, worker 10, worker 11, worker 1]"
  by (simp add: insertionSort_func_def insertionSort_outer.simps insertionSort_inner.simps
      Swap_def Less_def podLess_thirteen)

lemma go_sort_Slice_thirteen:
  "go_sort_Slice (podLess sortCPU) thirteen_pods =
     Some [busy_pod, worker 6, worker 2, worker 3, worker 4, worker 5, worker 0,
           worker 7, worker 8, worker 9, worker 10, worker 11, worker 1]"
proof -
  have n: "int (length thirteen_pods) = 13"
    by (simp add: thirteen_pods_def)
  show ?thesis
    unfolding go_sort_Slice_def Let_def n
    by (simp add: choosePivot_thirteen partialInsertionSort_thirteen partition_thirteen
        insertionSort_left insertionSort_right del: One_nat_def)
qed

lemma filterLoop_thirteen:
  "filterLoop go_env ''ALL'' False '''' thirteen_pods [] = thirteen_pods"
  by (simp add: filterLoop_filter nsMatch_def searchMatch_def)

lemma worker_6_0: "worker 6 \<noteq> worker 0"
  by (simp add: worker_def test_pod_def digits.simps)

text \<open>
  C2, as the specification words it, fails on a view of thirteen pods. The snapshot lists
  twelve workers with CPU use 0 and then a pod with CPU use 120; all pass the filter. In
  CPU mode \<open>sort.Slice\<close>, run as the Go library runs it, picks the element at index 6 as
  pivot, exchanges it with the first element and partitions: the busy pod comes first, and
  the workers, which all tie, follow in the order 6, 2, 3, 4, 5, 0, 7, 8, 9, 10, 11, 1, not
  in the order 0 to 11 in which the filter left them.
\<close>

theorem C2_stability_counterexample:
  "go_sort_Slice (podLess sortCPU) thirteen_pods =
     Some [busy_pod, worker 6, worker 2, worker 3, worker 4, worker 5, worker 0,
           worker 7, worker 8, worker 9, worker 10, worker 11, worker 1]
   \<and> filterLoop go_env ''ALL'' False '''' thirteen_pods [] = thirteen_pods
   \<and> filterPods go_env (test_model\<lparr>pods := thirteen_pods, sort_mode := sortCPU\<rparr>)
       = Inr (test_model\<lparr>pods := thirteen_pods, sort_mode := sortCPU,
                filteredPods :=
                  [busy_pod, worker 6, worker 2, worker 3, worker 4, worker 5, worker 0,
                   worker 7, worker 8, worker 9, worker 10, worker 11, worker 1]\<rparr>)
   \<and> tie (podLess sortCPU) (worker 0) (worker 6)
   \<and> \<not> keeps_tie_order (podLess sortCPU) thirteen_pods
          [busy_pod, worker 6, worker 2, worker 3, worker 4, worker 5, worker 0,
           worker 7, worker 8, worker 9, worker 10, worker 11, worker 1]"
proof (intro conjI)
  let ?out = "[busy_pod, worker 6, worker 2, worker 3, worker 4, worker 5, worker 0,
               worker 7, worker 8, worker 9, worker 10, worker 11, worker 1]"
  show "go_sort_Slice (podLess sortCPU) thirteen_pods = Some ?out"
    by (rule go_sort_Slice_thirteen)
  show "filterLoop go_env ''ALL'' False '''' thirteen_pods [] = thirteen_pods"
    by (rule filterLoop_thirteen)
  have ns: "index (namespaces (test_model\<lparr>pods := thirteen_pods, sort_mode := sortCPU\<rparr>))
              (currentNsIdx (test_model\<lparr>pods := thirteen_pods, sort_mode := sortCPU\<rparr>))
            = Inr ''ALL''"
    using index_test_model_ALL by simp
  have lowered: "strings_ToLower go_env
                (ti_Value (textInput (test_model\<lparr>pods := thirteen_pods, sort_mode := sortCPU\<rparr>)))
              = ''''"
    by (simp add: go_env_def test_env_def ascii_ToLower_def test_model_def initialModel_def
        test_input_def)
  have issues: "\<not> showIssues (test_model\<lparr>pods := thirteen_pods, sort_mode := sortCPU\<rparr>)"
    by (simp add: test_model_def initialModel_def)
  have sorted: "sort_Slice go_env (podLess sortCPU) thirteen_pods = ?out"
    by (simp add: go_env_def go_sort_Slice_thirteen del: One_nat_def)
  show "filterPods go_env (test_model\<lparr>pods := thirteen_pods, sort_mode := sortCPU\<rparr>)
       = Inr (test_model\<lparr>pods := thirteen_pods, sort_mode := sortCPU, filteredPods := ?out\<rparr>)"
    unfolding filterPods_Inr [OF ns] lowered
    using issues sorted by (simp add: nsMatch_def searchMatch_def del: One_nat_def)
  show "tie (podLess sortCPU) (worker 0) (worker 6)"
    by (simp add: tie_def podLess_thirteen)
  show "\<not> keeps_tie_order (podLess sortCPU) thirteen_pods ?out"
  proof
    assume "keeps_tie_order (podLess sortCPU) thirteen_pods ?out"
    then have "filter (tie (podLess sortCPU) (worker 0)) ?out
                 = filter (tie (podLess sortCPU) (worker 0)) thirteen_pods"
      by (simp add: keeps_tie_order_def thirteen_pods_def del: One_nat_def)
    then have heads: "hd (filter (tie (podLess sortCPU) (worker 0)) ?out)
                 = hd (filter (tie (podLess sortCPU) (worker 0)) thirteen_pods)"
      by (rule arg_cong)
    have after: "hd (filter (tie (podLess sortCPU) (worker 0)) ?out) = worker 6"
      by (simp add: tie_def podLess_thirteen del: One_nat_def)
    have before: "hd (filter (tie (podLess sortCPU) (worker 0)) thirteen_pods) = worker 0"
      by (simp add: thirteen_pods_def tie_def podLess_thirteen del: One_nat_def)
    from heads have "worker 6 = worker 0"
      unfolding after before .
    with worker_6_0 show False by blast
  qed
qed

section \<open>Pagination\<close>

lemma int64_wrap_id: "in_int64 x \<Longrightarrow> int64_wrap x = x"
  by (simp add: int64_wrap_def in_int64_def)

lemma perPage_positive: "1 \<le> perPage m"
  by (simp add: perPage_def Let_def)

lemma perPage_tall: "in_int64 (height m) \<Longrightarrow> 12 < height m \<Longrightarrow> perPage m = height m - 12"
proof -
  assume h: "in_int64 (height m)" "12 < height m"
  then have "in_int64 (height m - 12)"
    by (simp add: in_int64_def)
  then have "int64_wrap (height m - 12) = height m - 12"
    by (rule int64_wrap_id)
  with h show ?thesis
    by (simp add: perPage_def Let_def)
qed

lemma perPage_short: "0 \<le> height m \<Longrightarrow> height m \<le> 12 \<Longrightarrow> perPage m = 5"
proof -
  assume h: "0 \<le> height m" "height m \<le> 12"
  then have "in_int64 (height m - 12)"
    by (simp add: in_int64_def)
  then have "int64_wrap (height m - 12) = height m - 12"
    by (rule int64_wrap_id)
  with h show ?thesis
    by (simp add: perPage_def Let_def)
qed

lemma calculatePagination_cases:
  assumes len: "int (length (filteredPods m)) < 2 ^ 63"
    and cur: "0 \<le> cursor m" "cursor m < int (length (filteredPods m)) \<or> cursor m = 0"
  shows "calculatePagination m =
     (if int (length (filteredPods m)) > perPage m
      then (if cursor m < perPage m then (0, perPage m)
            else (cursor m - perPage m + 1, cursor m + 1))
      else (0, int (length (filteredPods m))))"
proof -
  have pp: "1 \<le> perPage m" by (rule perPage_positive)
  have w1: "int64_wrap (cursor m + 1) = cursor m + 1"
    using len cur by (intro int64_wrap_id) (auto simp: in_int64_def)
  have w2: "int64_wrap (cursor m - perPage m) = cursor m - perPage m"
    if "\<not> cursor m < perPage m"
    using len cur pp that by (intro int64_wrap_id) (auto simp: in_int64_def)
  have w3: "int64_wrap (cursor m - perPage m + 1) = cursor m - perPage m + 1"
    if "\<not> cursor m < perPage m"
    using len cur pp that by (intro int64_wrap_id) (auto simp: in_int64_def)
  show ?thesis
    using w1 w2 w3 by (simp add: calculatePagination_def Let_def)
qed

text \<open>
  C3, as the code has it. For a cursor that is a valid index of the view (or 0 on an
  empty view), the window is
  \<open>[start, end)\<close> with \<open>start = max 0 (cursor - P + 1)\<close> when \<open>cursor \<ge> P\<close> and \<open>0\<close>
  otherwise, \<open>end = min (start + P) (length of the view)\<close>; it is never longer than \<open>P\<close>,
  never reaches past the view, and holds the cursor when the view is not empty. The capacity \<open>P\<close> is the terminal
  height less 12 when that is positive, and 5 when it is not: it is at least 1, not at
  least 5.
\<close>

theorem C3_pagination_window:
  assumes len: "int (length (filteredPods m)) < 2 ^ 63"
    and cur: "0 \<le> cursor m" "cursor m < int (length (filteredPods m)) \<or> cursor m = 0"
    and ht: "in_int64 (height m)"
  shows "fst (calculatePagination m) =
           (if cursor m \<ge> perPage m then max 0 (cursor m - perPage m + 1) else 0)
       \<and> snd (calculatePagination m) =
           min (fst (calculatePagination m) + perPage m) (int (length (filteredPods m)))
       \<and> snd (calculatePagination m) - fst (calculatePagination m) \<le> perPage m
       \<and> snd (calculatePagination m) \<le> int (length (filteredPods m))
       \<and> 0 \<le> fst (calculatePagination m)
       \<and> fst (calculatePagination m) \<le> cursor m
       \<and> (filteredPods m \<noteq> [] \<longrightarrow> cursor m < snd (calculatePagination m))
       \<and> 1 \<le> perPage m
       \<and> (12 < height m \<longrightarrow> perPage m = height m - 12)
       \<and> (0 \<le> height m \<and> height m \<le> 12 \<longrightarrow> perPage m = 5)"
proof -
  have pp: "1 \<le> perPage m" by (rule perPage_positive)
  note win = calculatePagination_cases [OF len cur]
  have tall: "12 < height m \<longrightarrow> perPage m = height m - 12"
    using perPage_tall [OF ht] by blast
  have short: "0 \<le> height m \<and> height m \<le> 12 \<longrightarrow> perPage m = 5"
    using perPage_short by blast
  have "fst (calculatePagination m) =
           (if cursor m \<ge> perPage m then max 0 (cursor m - perPage m + 1) else 0)"
    using pp cur unfolding win by auto
  moreover have "snd (calculatePagination m) =
           min (fst (calculatePagination m) + perPage m) (int (length (filteredPods m)))"
    using pp cur unfolding win by auto
  moreover have "snd (calculatePagination m) - fst (calculatePagination m) \<le> perPage m"
    using pp cur unfolding win by auto
  moreover have "snd (calculatePagination m) \<le> int (length (filteredPods m))"
    using pp cur unfolding win by auto
  moreover have "0 \<le> fst (calculatePagination m)"
    using pp cur unfolding win by auto
  moreover have "fst (calculatePagination m) \<le> cursor m"
    using pp cur unfolding win by auto
  moreover have "filteredPods m \<noteq> [] \<longrightarrow> cursor m < snd (calculatePagination m)"
    using pp cur unfolding win by auto
  ultimately show ?thesis
    using pp tall short by blast
qed

theorem C3_pagination_window_witness:
  "int (length (filteredPods (test_model\<lparr>cursor := 3, height := 14\<rparr>))) < 2 ^ 63
   \<and> 0 \<le> cursor (test_model\<lparr>cursor := 3, height := 14\<rparr>)
   \<and> (cursor (test_model\<lparr>cursor := 3, height := 14\<rparr>)
         < int (length (filteredPods (test_model\<lparr>cursor := 3, height := 14\<rparr>)))
       \<or> cursor (test_model\<lparr>cursor := 3, height := 14\<rparr>) = 0)
   \<and> in_int64 (height (test_model\<lparr>cursor := 3, height := 14\<rparr>))
   \<and> perPage (test_model\<lparr>cursor := 3, height := 14\<rparr>) = 2
   \<and> fst (calculatePagination (test_model\<lparr>cursor := 3, height := 14\<rparr>)) = 2
   \<and> snd (calculatePagination (test_model\<lparr>cursor := 3, height := 14\<rparr>)) = 4"
proof -
  let ?m = "test_model\<lparr>cursor := 3, height := 14\<rparr>"
  have h1: "int (length (filteredPods ?m)) < 2 ^ 63"
    by (simp add: test_model_def)
  have h2: "0 \<le> cursor ?m" by simp
  have h3: "cursor ?m < int (length (filteredPods ?m)) \<or> cursor ?m = 0"
    by (simp add: test_model_def)
  have h4: "in_int64 (height ?m)"
    by (simp add: in_int64_def)
  have n: "int (length (filteredPods ?m)) = 4"
    by (simp add: test_model_def)
  from C3_pagination_window [OF h1 h2 h3 h4]
  have pp: "perPage ?m = 2"
    and st: "fst (calculatePagination ?m)
               = (if cursor ?m \<ge> perPage ?m then max 0 (cursor ?m - perPage ?m + 1) else 0)"
    and en: "snd (calculatePagination ?m)
               = min (fst (calculatePagination ?m) + perPage ?m) (int (length (filteredPods ?m)))"
    by simp_all
  have st': "fst (calculatePagination ?m) = 2"
    unfolding st pp by simp
  have en': "snd (calculatePagination ?m) = 4"
    unfolding en st' pp n by simp
  show ?thesis
    using h1 h2 h3 h4 pp st' en' by blast
qed

text \<open>
  C3, as the specification words it, fails in its last part: on a terminal 13 rows high
  the capacity is 1, and the window of a view of four pods with the cursor on the third
  holds that pod alone.
\<close>

theorem C3_capacity_counterexample:
  "perPage (test_model\<lparr>cursor := 2, height := 13\<rparr>) = 1
   \<and> \<not> 5 \<le> perPage (test_model\<lparr>cursor := 2, height := 13\<rparr>)
   \<and> calculatePagination (test_model\<lparr>cursor := 2, height := 13\<rparr>) = (2, 3)"
  by (simp add: perPage_def calculatePagination_def Let_def int64_wrap_def test_model_def)

section \<open>Failed fetches\<close>

text \<open>
  C4, as the code has it. When listing the pods fails, \<open>fetchPods\<close> returns the nil
  message, and \<open>Update\<close> leaves the whole model as it was. When listing the nodes fails,
  \<open>fetchClusterStats\<close> returns a \<open>statsMsg\<close> of the zero summary, and \<open>Update\<close> stores it:
  the pods stay, the cluster summary is replaced by zeros.
\<close>

theorem C4_failed_fetch_results:
  "perform (K\<lparr>Pods_List := Inl err\<rparr>) fetchPods = Some nilMsg
   \<and> Update E m nilMsg = Inr (m, nilCmd)
   \<and> perform (K\<lparr>Nodes_List := Inl err\<rparr>) fetchClusterStats = Some (statsMsg zero_stats)
   \<and> Update E m (statsMsg zero_stats) = Inr (m\<lparr>clusterStats := zero_stats\<rparr>, nilCmd)
   \<and> pods (m\<lparr>clusterStats := zero_stats\<rparr>) = pods m"
  by (simp add: fetchPods_body_def fetchClusterStats_body_def zero_stats_def)

text \<open>
  C4, as the specification words it, fails for the cluster summary: after a failed fetch
  is processed, a summary of three nodes has become the zero summary.
\<close>

theorem C4_cluster_summary_counterexample:
  "perform failing_cluster fetchClusterStats = Some (statsMsg zero_stats)
   \<and> Update test_env (test_model\<lparr>clusterStats := test_stats\<rparr>) (statsMsg zero_stats)
       = Inr (test_model\<lparr>clusterStats := zero_stats\<rparr>, nilCmd)
   \<and> clusterStats (test_model\<lparr>clusterStats := zero_stats\<rparr>)
       \<noteq> clusterStats (test_model\<lparr>clusterStats := test_stats\<rparr>)
   \<and> NodeCount (clusterStats (test_model\<lparr>clusterStats := test_stats\<rparr>)) = 3
   \<and> NodeCount (clusterStats (test_model\<lparr>clusterStats := zero_stats\<rparr>)) = 0"
  by (simp add: fetchClusterStats_body_def failing_cluster_def zero_stats_def test_stats_def)

section \<open>The note of a pod\<close>

lemma containerNote_statusReason:
  "containerNote c nt = (case statusReason c of None \<Rightarrow> nt | Some r \<Rightarrow> r)"
  by (simp add: containerNote_def terminatedNote_def statusReason_def waitingReason_def
      terminatedReason_def split: option.splits)

lemma statusLoop_note:
  "snd (snd (statusLoop cs r ready nt)) =
     (case rev (List.map_filter statusReason cs) of [] \<Rightarrow> nt | x # xs \<Rightarrow> x)"
proof (induction cs arbitrary: r ready nt)
  case Nil
  then show ?case by (simp add: List.map_filter_simps)
next
  case (Cons c cs)
  show ?case
  proof (cases "statusReason c")
    case None
    then show ?thesis
      by (simp add: Cons.IH containerNote_statusReason List.map_filter_simps)
  next
    case (Some x)
    then show ?thesis
      by (simp add: Cons.IH containerNote_statusReason List.map_filter_simps
          split: list.splits)
  qed
qed

lemma statusLoop_ready:
  "fst (snd (statusLoop cs r ready nt)) = ready + int (length (filter cs_Ready cs))"
  by (induction cs arbitrary: r ready nt) auto

lemma all_ready_count: "length (filter P xs) = length xs \<longleftrightarrow> list_all P xs"
proof (induction xs)
  case Nil
  then show ?case by simp
next
  case (Cons x xs)
  have "length (filter P xs) < Suc (length xs)"
    using length_filter_le [of P xs] by linarith
  with Cons show ?case by auto
qed

text \<open>
  C5, as the code has it. The note is \<open>Completed\<close> when the phase is Succeeded; else
  \<open>[OK]\<close> when the phase is Running and every container status is ready; else the reason
  of the last container status, in the order of the list, that has one (its waiting reason
  if that is not empty, otherwise its terminated reason, with the exit code in brackets
  when it is not zero); else \<open>[OK]\<close>.
\<close>

theorem C5_note_resolution:
  "Message (buildPodInfo uMap p) =
     (if p_Phase p = ''Succeeded'' then ''Completed''
      else if p_Phase p = ''Running'' \<and> list_all cs_Ready (p_ContainerStatuses p) then ''[OK]''
      else case rev (List.map_filter statusReason (p_ContainerStatuses p)) of
             [] \<Rightarrow> ''[OK]''
           | r # rs \<Rightarrow> r)"
proof -
  obtain r ready nt where loop: "statusLoop (p_ContainerStatuses p) 0 0 ''[OK]'' = (r, ready, nt)"
    by (metis prod_cases3)
  have ready: "ready = int (length (filter cs_Ready (p_ContainerStatuses p)))"
    using statusLoop_ready [of "p_ContainerStatuses p" 0 0 "''[OK]''"] loop by simp
  have nt_eq: "nt = (case rev (List.map_filter statusReason (p_ContainerStatuses p)) of
                        [] \<Rightarrow> ''[OK]'' | x # xs \<Rightarrow> x)"
    using statusLoop_note [of "p_ContainerStatuses p" 0 0 "''[OK]''"] loop by simp
  have all: "ready = int (length (p_ContainerStatuses p))
               \<longleftrightarrow> list_all cs_Ready (p_ContainerStatuses p)"
    unfolding ready using all_ready_count [of cs_Ready "p_ContainerStatuses p"] by simp
  have "Message (buildPodInfo uMap p) =
          (if p_Phase p = ''Succeeded'' then ''Completed''
           else if p_Phase p = ''Running'' \<and> ready = int (length (p_ContainerStatuses p))
           then ''[OK]'' else nt)"
    by (simp add: buildPodInfo_def Let_def loop)
  then show ?thesis
    unfolding all nt_eq by simp
qed

text \<open>
  C5, as the specification words it, fails: a waiting reason does not come first. For the
  pod whose first container waits in \<open>CrashLoopBackOff\<close> and whose second has terminated
  with \<open>Error\<close> and exit code 1, the priority list gives \<open>CrashLoopBackOff\<close>; the code
  shows \<open>Error (1)\<close>, the reason of the later container.
\<close>

theorem C5_priority_counterexample:
  "Message (buildPodInfo Map.empty crashing_pod) = ''Error (1)''
   \<and> spec_note crashing_pod = ''CrashLoopBackOff''
   \<and> Message (buildPodInfo Map.empty crashing_pod) \<noteq> spec_note crashing_pod"
  by (simp add: buildPodInfo_def Let_def crashing_pod_def containerNote_def terminatedNote_def
      spec_note_def waitingReason_def terminatedReason_def List.map_filter_simps
      Sprintf_d_def digits.simps)

section \<open>The cursor\<close>

text \<open>
  C6 fails on the code. From the initial model: a snapshot of two pods arrives, the cursor
  moves down to the second, the search bar is opened and \<open>a\<close> is typed. The live filter
  keeps one pod, and the cursor still says 1: the search branch of \<open>Update\<close> runs
  \<open>filterPods\<close> and neither resets nor clamps the cursor, as the \<open>n\<close> and \<open>tab\<close> keys and
  the \<open>podsMsg\<close> case do. Closing the search bar and pressing \<open>enter\<close> then indexes the
  view out of range.
\<close>

theorem C6_search_leaves_cursor_out_of_range:
  "run test_env (initialModel ''/root/.kube/config'' test_input)
     [podsMsg [pod_api, pod_db], KeyMsg ''down'', KeyMsg ''/'', KeyMsg ''a'']
   = Inr ((initialModel ''/root/.kube/config'' test_input)
            \<lparr>pods := [pod_api, pod_db], filteredPods := [pod_api], loading := False,
             cursor := 1, searchActive := True,
             textInput := \<lparr>ti_Value = ''a'', ti_focus = True\<rparr>\<rparr>)
   \<and> run test_env (initialModel ''/root/.kube/config'' test_input)
       [podsMsg [pod_api, pod_db], KeyMsg ''down'', KeyMsg ''/'', KeyMsg ''a'',
        KeyMsg ''enter'', KeyMsg ''enter'']
     = Inl IndexOutOfRange"
  by (simp add: initialModel_def test_input_def test_env_def Update_podsMsg_def Update_key_def
      Update_viewList_def Update_search_def filterPods_def index_def Let_def typing_def
      ascii_ToLower_def podLess_def int64_wrap_def pod_api_def pod_db_def test_pod_def)

section \<open>Destructive actions\<close>

text \<open>
  C7 fails on the code for the single delete and for the restart. The pod \<open>web\<close> is
  staged and the delete is confirmed; the cluster refuses the call with \<open>forbidden\<close>;
  \<open>deletePod\<close> drops the error and reports \<open>Pod deleted.\<close>, which \<open>Update\<close> puts in the
  status line. \<open>cleanseNamespace\<close>, next to it, does report the error it gets.
\<close>

theorem C7_delete_error_dropped:
  "Update test_env (test_model\<lparr>state := viewDeleteConfirm, podToDelete := Some pod_web\<rparr>)
     (KeyMsg ''y'')
     = Inr (test_model\<lparr>state := viewList, podToDelete := None, msg := ''Deleting web...''\<rparr>,
            deletePod pod_web)
   \<and> Pods_Delete failing_cluster (Namespace pod_web) (Name pod_web) = Some ''forbidden''
   \<and> perform failing_cluster (deletePod pod_web) = Some (deleteMsg ''Pod deleted.'')
   \<and> Update test_env (test_model\<lparr>state := viewList, podToDelete := None,
                                   msg := ''Deleting web...''\<rparr>) (deleteMsg ''Pod deleted.'')
     = Inr (test_model\<lparr>state := viewList, podToDelete := None, msg := ''Pod deleted.''\<rparr>,
            fetchPods)
   \<and> perform failing_cluster (cleanseNamespace ''prod'')
     = Some (deleteMsg ''Cleanse failed: forbidden'')"
  by (simp add: Update_key_def Update_viewDeleteConfirm_def deref_def test_model_def
      initialModel_def deletePod_body_def cleanseNamespace_body_def failing_cluster_def
      pod_web_def test_pod_def)

section \<open>The container picker\<close>

text \<open>
  C8. In the list, with the search bar closed and the cursor on a pod, \<open>enter\<close> (view
  logs) and \<open>s\<close> (open shell) enter the container picker if and only if the pod has more
  than one container. With exactly one container the command is issued at once for that
  container, with none it is issued at once for the empty container name.
\<close>

theorem C8_container_picker:
  assumes list: "state m = viewList" "\<not> searchActive m"
    and target: "index (filteredPods m) (cursor m) = Inr pod"
  shows "(\<exists>m' c. Update E m (KeyMsg ''enter'') = Inr (m', c)
            \<and> (state m' = viewContainerSelect \<longleftrightarrow> 1 < length (Containers pod))
            \<and> (1 < length (Containers pod) \<longrightarrow>
                  c = nilCmd \<and> selectedPod m' = Some pod \<and> containerList m' = Containers pod
                  \<and> targetAction m' = ''logs'' \<and> containerCursor m' = 0)
            \<and> (\<forall>cn. Containers pod = [cn] \<longrightarrow> c = fetchLogs pod cn \<and> state m' = viewLogs)
            \<and> (Containers pod = [] \<longrightarrow> c = fetchLogs pod '''' \<and> state m' = viewLogs))
       \<and> (\<exists>m' c. Update E m (KeyMsg ''s'') = Inr (m', c)
            \<and> (state m' = viewContainerSelect \<longleftrightarrow> 1 < length (Containers pod))
            \<and> (1 < length (Containers pod) \<longrightarrow>
                  c = nilCmd \<and> selectedPod m' = Some pod \<and> containerList m' = Containers pod
                  \<and> targetAction m' = ''shell'' \<and> containerCursor m' = 0)
            \<and> (\<forall>cn. Containers pod = [cn] \<longrightarrow>
                  c = openShell (Namespace pod) (Name pod) cn (kubeconfig m) \<and> m' = m)
            \<and> (Containers pod = [] \<longrightarrow>
                  c = openShell (Namespace pod) (Name pod) '''' (kubeconfig m) \<and> m' = m))"
proof -
  have nonempty: "length (filteredPods m) > 0"
    using target by (auto simp: index_def split: if_splits)
  have logs: "Update E m (KeyMsg ''enter'') = Inr (initiateAction m pod ''logs'')"
    using list target nonempty by (simp add: Update_key_def Update_viewList_def)
  have shell: "Update E m (KeyMsg ''s'') = Inr (initiateAction m pod ''shell'')"
    using list target nonempty by (simp add: Update_key_def Update_viewList_def)
  have "\<exists>m' c. Update E m (KeyMsg ''enter'') = Inr (m', c)
            \<and> (state m' = viewContainerSelect \<longleftrightarrow> 1 < length (Containers pod))
            \<and> (1 < length (Containers pod) \<longrightarrow>
                  c = nilCmd \<and> selectedPod m' = Some pod \<and> containerList m' = Containers pod
                  \<and> targetAction m' = ''logs'' \<and> containerCursor m' = 0)
            \<and> (\<forall>cn. Containers pod = [cn] \<longrightarrow> c = fetchLogs pod cn \<and> state m' = viewLogs)
            \<and> (Containers pod = [] \<longrightarrow> c = fetchLogs pod '''' \<and> state m' = viewLogs)"
    unfolding logs using list(1)
    by (intro exI [of _ "fst (initiateAction m pod ''logs'')"]
        exI [of _ "snd (initiateAction m pod ''logs'')"])
      (auto simp: initiateAction_def Let_def)
  moreover have "\<exists>m' c. Update E m (KeyMsg ''s'') = Inr (m', c)
            \<and> (state m' = viewContainerSelect \<longleftrightarrow> 1 < length (Containers pod))
            \<and> (1 < length (Containers pod) \<longrightarrow>
                  c = nilCmd \<and> selectedPod m' = Some pod \<and> containerList m' = Containers pod
                  \<and> targetAction m' = ''shell'' \<and> containerCursor m' = 0)
            \<and> (\<forall>cn. Containers pod = [cn] \<longrightarrow>
                  c = openShell (Namespace pod) (Name pod) cn (kubeconfig m) \<and> m' = m)
            \<and> (Containers pod = [] \<longrightarrow>
                  c = openShell (Namespace pod) (Name pod) '''' (kubeconfig m) \<and> m' = m)"
    unfolding shell using list(1)
    by (intro exI [of _ "fst (initiateAction m pod ''shell'')"]
        exI [of _ "snd (initiateAction m pod ''shell'')"])
      (auto simp: initiateAction_def Let_def)
  ultimately show ?thesis by blast
qed

theorem C8_container_picker_witness:
  "state (test_model\<lparr>cursor := 2\<rparr>) = viewList
   \<and> \<not> searchActive (test_model\<lparr>cursor := 2\<rparr>)
   \<and> index (filteredPods (test_model\<lparr>cursor := 2\<rparr>)) (cursor (test_model\<lparr>cursor := 2\<rparr>))
       = Inr pod_db
   \<and> length (Containers pod_db) = 2
   \<and> (\<exists>m' c. Update test_env (test_model\<lparr>cursor := 2\<rparr>) (KeyMsg ''enter'') = Inr (m', c)
         \<and> state m' = viewContainerSelect \<and> c = nilCmd
         \<and> containerList m' = [''postgres'', ''exporter''])"
proof -
  let ?m = "test_model\<lparr>cursor := 2\<rparr>"
  have h1: "state ?m = viewList"
    by (simp add: test_model_def initialModel_def)
  have h2: "\<not> searchActive ?m"
    by (simp add: test_model_def initialModel_def)
  have h3: "index (filteredPods ?m) (cursor ?m) = Inr pod_db"
    by (simp add: test_model_def index_def)
  have two: "length (Containers pod_db) = 2" "Containers pod_db = [''postgres'', ''exporter'']"
    by (simp_all add: pod_db_def test_pod_def)
  from C8_container_picker [OF h1 h2 h3, of test_env] two
  have "\<exists>m' c. Update test_env ?m (KeyMsg ''enter'') = Inr (m', c)
         \<and> state m' = viewContainerSelect \<and> c = nilCmd
         \<and> containerList m' = [''postgres'', ''exporter'']"
    by auto
  with h1 h2 h3 two show ?thesis by blast
qed

section \<open>Restart and delete\<close>

text \<open>
  C9. With a pod staged and the search bar closed, confirming (\<open>y\<close> or \<open>Y\<close>) in
  RestartConfirm and in DeleteConfirm issue the same command, the delete of the staged
  pod; both clear the staged pod and return to the list. The two results differ in the
  status line only.
\<close>

theorem C9_restart_is_delete:
  assumes "\<not> searchActive m" and "podToDelete m = Some pod" and "k = ''y'' \<or> k = ''Y''"
  shows "Update E (m\<lparr>state := viewRestartConfirm\<rparr>) (KeyMsg k)
           = Inr (m\<lparr>state := viewList, podToDelete := None,
                     msg := ''Restarting '' @ Name pod @ ''...''\<rparr>, deletePod pod)
       \<and> Update E (m\<lparr>state := viewDeleteConfirm\<rparr>) (KeyMsg k)
           = Inr (m\<lparr>state := viewList, podToDelete := None,
                     msg := ''Deleting '' @ Name pod @ ''...''\<rparr>, deletePod pod)"
  using assms
  by (auto simp: Update_key_def Update_viewRestartConfirm_def Update_viewDeleteConfirm_def
      deref_def)

theorem C9_restart_is_delete_witness:
  "\<not> searchActive (test_model\<lparr>podToDelete := Some pod_web\<rparr>)
   \<and> podToDelete (test_model\<lparr>podToDelete := Some pod_web\<rparr>) = Some pod_web
   \<and> Update test_env (test_model\<lparr>podToDelete := Some pod_web, state := viewRestartConfirm\<rparr>)
       (KeyMsg ''y'')
       = Inr (test_model\<lparr>state := viewList, podToDelete := None, msg := ''Restarting web...''\<rparr>,
              deletePod pod_web)
   \<and> Update test_env (test_model\<lparr>podToDelete := Some pod_web, state := viewDeleteConfirm\<rparr>)
       (KeyMsg ''y'')
       = Inr (test_model\<lparr>state := viewList, podToDelete := None, msg := ''Deleting web...''\<rparr>,
              deletePod pod_web)"
proof -
  let ?m = "test_model\<lparr>podToDelete := Some pod_web\<rparr>"
  have h1: "\<not> searchActive ?m"
    by (simp add: test_model_def initialModel_def)
  have h2: "podToDelete ?m = Some pod_web" by simp
  have h3: "''y'' = ''y'' \<or> ''y'' = ''Y''" by simp
  have name: "Name pod_web = ''web''"
    by (simp add: pod_web_def test_pod_def)
  from C9_restart_is_delete [OF h1 h2 h3, of test_env] name h1 h2
  show ?thesis by simp
qed

section \<open>The namespace key\<close>



end
